theory Spec2Isabelle
  imports Complex_Main "HOL-Library.AList"
begin

section \<open>Python values\<close>

text \<open>
  \<^verbatim>\<open>cfb_checker.py\<close> works on what \<^verbatim>\<open>response.json()\<close> returns: dynamically typed
  values built from \<^verbatim>\<open>None\<close>, booleans, integers, floats, strings, lists and dictionaries.
  Every attribute access, comparison and conversion of the program can raise on a value of
  the wrong shape, so the model keeps the dynamic typing and writes each exception out.

  A Python \<^verbatim>\<open>str\<close> is modelled by its UTF-8 encoding, one \<^typ>\<open>char\<close> per byte. Concatenation,
  equality and emptiness do not depend on the encoding. The three operations of the
  program that look at code points (\<^verbatim>\<open>str.lower\<close>, \<^verbatim>\<open>str.strip\<close>, \<^verbatim>\<open>float\<close> of a string)
  are computed here on ASCII text and taken from the \<open>platform\<close> record below otherwise.
\<close>

datatype pyerr =
  AttributeError | TypeError | ValueError | OverflowError | KeyError | IndexError | EOFError

text \<open>
  A float is an IEEE double. A finite, nonzero double is represented by its exact value;
  the two zeros, the infinities and NaN (which Python's JSON decoder and \<^verbatim>\<open>float\<close> both
  produce) are separate.
\<close>

datatype pyfloat = Finite rat | PosZero | NegZero | PosInf | NegInf | NaN

datatype json =
    JNull
  | JBool bool
  | JInt int
  | JFloat pyfloat
  | JStr string
  | JArr "json list"
  | JObj "(string \<times> json) list"

text \<open>
  A dictionary is an association list in insertion order; \<open>map_of\<close> is the lookup, so of
  two bindings of one key the first is the one the dictionary holds.
\<close>

subsection \<open>Characters\<close>

definition is_ascii :: "char \<Rightarrow> bool" where
  "is_ascii c = (of_char c < (128::nat))"

definition is_digit :: "char \<Rightarrow> bool" where
  "is_digit c = (48 \<le> (of_char c :: nat) \<and> (of_char c :: nat) \<le> 57)"

definition digit_val :: "char \<Rightarrow> nat" where
  "digit_val c = of_char c - 48"

definition is_upper :: "char \<Rightarrow> bool" where
  "is_upper c = (65 \<le> (of_char c :: nat) \<and> (of_char c :: nat) \<le> 90)"

definition is_lower :: "char \<Rightarrow> bool" where
  "is_lower c = (97 \<le> (of_char c :: nat) \<and> (of_char c :: nat) \<le> 122)"

definition to_lower :: "char \<Rightarrow> char" where
  "to_lower c = (if is_upper c then char_of (of_char c + (32::nat)) else c)"

definition to_upper :: "char \<Rightarrow> char" where
  "to_upper c = (if is_lower c then char_of (of_char c - (32::nat)) else c)"

text \<open>\<^verbatim>\<open>str.isspace\<close> on ASCII: tab to carriage return, the four separators, and the space.\<close>

definition is_space :: "char \<Rightarrow> bool" where
  "is_space c = (let n = (of_char c :: nat) in (9 \<le> n \<and> n \<le> 13) \<or> (28 \<le> n \<and> n \<le> 32))"

text \<open>The C locale's \<^verbatim>\<open>isspace\<close>, which \<^verbatim>\<open>float\<close> strips by: no separators.\<close>

definition is_cspace :: "char \<Rightarrow> bool" where
  "is_cspace c = (let n = (of_char c :: nat) in (9 \<le> n \<and> n \<le> 13) \<or> n = 32)"

definition strip_by :: "(char \<Rightarrow> bool) \<Rightarrow> string \<Rightarrow> string" where
  "strip_by p s = rev (dropWhile p (rev (dropWhile p s)))"

subsection \<open>Integers as text\<close>

fun digits_of :: "nat \<Rightarrow> string" where
  "digits_of n =
     (if n < 10 then [char_of (48 + n)]
      else digits_of (n div 10) @ [char_of (48 + n mod 10)])"

declare digits_of.simps [simp del]

definition str_int :: "int \<Rightarrow> string" where
  "str_int i = (if i < 0 then CHR ''-'' # digits_of (nat (- i)) else digits_of (nat i))"

subsection \<open>Floats\<close>

text \<open>
  Rounding a nonnegative rational to the nearest double, ties to even: 53 significant bits,
  the least exponent of a subnormal \<open>-1074\<close>, overflow to infinity from
  \<open>2 ^ 1024 - 2 ^ 970\<close> on. The flag is the sign.
\<close>

fun bit_length :: "nat \<Rightarrow> nat" where
  "bit_length n = (if n = 0 then 0 else Suc (bit_length (n div 2)))"

declare bit_length.simps [simp del]

definition pow2 :: "int \<Rightarrow> rat" where
  "pow2 k = (if 0 \<le> k then 2 ^ nat k else 1 / 2 ^ nat (- k))"

definition pow10 :: "int \<Rightarrow> rat" where
  "pow10 k = (if 0 \<le> k then 10 ^ nat k else 1 / 10 ^ nat (- k))"

definition ilog2 :: "rat \<Rightarrow> int" where
  "ilog2 a =
     (case quotient_of a of (p, q) \<Rightarrow>
        let e = int (bit_length (nat p)) - int (bit_length (nat q))
        in if pow2 e \<le> a then e else e - 1)"

definition round_half_even :: "rat \<Rightarrow> int" where
  "round_half_even m =
     (let n = \<lfloor>m\<rfloor>; f = m - of_int n
      in if 1 / 2 < f \<or> (f = 1 / 2 \<and> odd n) then n + 1 else n)"

definition round_double :: "bool \<Rightarrow> rat \<Rightarrow> pyfloat" where
  "round_double neg a =
     (if a = 0 then (if neg then NegZero else PosZero)
      else
        let u = max (ilog2 a - 52) (- 1074);
            v = of_int (round_half_even (a / pow2 u)) * pow2 u
        in if 2 ^ 1024 \<le> v then (if neg then NegInf else PosInf)
           else if v = 0 then (if neg then NegZero else PosZero)
           else Finite (if neg then - v else v))"

text \<open>\<^verbatim>\<open>int(x)\<close> of a float truncates towards zero and raises on NaN and the infinities.\<close>

fun int_of_float :: "pyfloat \<Rightarrow> pyerr + int" where
  "int_of_float (Finite r) = Inr (if r < 0 then - \<lfloor>- r\<rfloor> else \<lfloor>r\<rfloor>)"
| "int_of_float PosZero = Inr 0"
| "int_of_float NegZero = Inr 0"
| "int_of_float PosInf = Inl OverflowError"
| "int_of_float NegInf = Inl OverflowError"
| "int_of_float NaN = Inl ValueError"

text \<open>
  \<^verbatim>\<open>float(s)\<close> of an ASCII string: surrounding C whitespace is dropped, then
  \<^verbatim>\<open>[sign] (inf | infinity | nan | number [exponent])\<close> must be the whole text, where
  \<^verbatim>\<open>digitpart = digit (["_"] digit)*\<close>,
  \<^verbatim>\<open>number = [digitpart] "." digitpart | digitpart ["."]\<close> and
  \<^verbatim>\<open>exponent = ("e" | "E") [sign] digitpart\<close>. Anything else is a \<^verbatim>\<open>ValueError\<close>.
\<close>

fun digit_run :: "string \<Rightarrow> string \<times> string" where
  "digit_run [] = ([], [])"
| "digit_run [c] = (if is_digit c then ([c], []) else ([], [c]))"
| "digit_run (c # d # cs) =
     (if is_digit c then (case digit_run (d # cs) of (ds, r) \<Rightarrow> (c # ds, r))
      else if c = CHR ''_'' \<and> is_digit d then digit_run (d # cs)
      else ([], c # d # cs))"

text \<open>
  An underscore is only read by \<open>digit_run\<close> between two digits: \<open>digitpart\<close> starts a
  run at a digit, and the run goes on past an underscore only when a digit follows it.
\<close>

definition digitpart :: "string \<Rightarrow> (string \<times> string) option" where
  "digitpart s =
     (case s of [] \<Rightarrow> None
      | c # cs \<Rightarrow>
          if is_digit c then (case digit_run cs of (ds, r) \<Rightarrow>
            (case r of
               u # d # _ \<Rightarrow> if ds = [] \<and> u = CHR ''_'' \<and> is_digit d then None else Some (c # ds, r)
             | _ \<Rightarrow> Some (c # ds, r)))
          else None)"

definition number :: "string \<Rightarrow> (string \<times> string \<times> string) option" where
  "number s =
     (case digitpart s of
        Some (ip, r) \<Rightarrow>
          (case r of
             c # r' \<Rightarrow>
               if c = CHR ''.'' then
                 (case digitpart r' of Some (fp, r'') \<Rightarrow> Some (ip, fp, r'') | None \<Rightarrow> Some (ip, [], r'))
               else Some (ip, [], r)
           | [] \<Rightarrow> Some (ip, [], []))
      | None \<Rightarrow>
          (case s of
             c # r' \<Rightarrow>
               if c = CHR ''.'' then
                 (case digitpart r' of Some (fp, r'') \<Rightarrow> Some ([], fp, r'') | None \<Rightarrow> None)
               else None
           | [] \<Rightarrow> None))"

definition split_sign :: "string \<Rightarrow> bool \<times> string" where
  "split_sign s =
     (case s of
        c # cs \<Rightarrow> if c = CHR ''-'' then (True, cs) else if c = CHR ''+'' then (False, cs) else (False, s)
      | [] \<Rightarrow> (False, []))"

definition nat_of_digits :: "string \<Rightarrow> nat" where
  "nat_of_digits ds = foldl (\<lambda>a c. 10 * a + digit_val c) 0 ds"

definition exponent :: "string \<Rightarrow> int option" where
  "exponent s =
     (case s of
        [] \<Rightarrow> Some 0
      | c # cs \<Rightarrow>
          if c = CHR ''e'' \<or> c = CHR ''E'' then
            (case split_sign cs of (neg, ds) \<Rightarrow>
               (case digitpart ds of
                  Some (es, []) \<Rightarrow> Some (if neg then - int (nat_of_digits es) else int (nat_of_digits es))
                | _ \<Rightarrow> None))
          else None)"

definition float_of_ascii :: "string \<Rightarrow> pyerr + pyfloat" where
  "float_of_ascii s =
     (case split_sign (strip_by is_cspace s) of (neg, t) \<Rightarrow>
        let w = map to_lower t in
        if w = ''inf'' \<or> w = ''infinity'' then Inr (if neg then NegInf else PosInf)
        else if w = ''nan'' then Inr NaN
        else
          (case number t of
             None \<Rightarrow> Inl ValueError
           | Some (ip, fp, r) \<Rightarrow>
               (case exponent r of
                  None \<Rightarrow> Inl ValueError
                | Some ex \<Rightarrow>
                    Inr (round_double neg
                      (of_nat (nat_of_digits (ip @ fp)) * pow10 (ex - int (length fp)))))))"

subsection \<open>What the model takes from its surroundings\<close>

text \<open>
  The parts of the Python runtime that are no code of this repository and that the model
  does not compute are fields of a record every function below is handed:
  \<^item> \<open>unicode_lower\<close>, \<open>unicode_strip\<close>, \<open>unicode_title\<close>, \<open>unicode_float\<close>: \<^verbatim>\<open>str.lower\<close>,
    \<^verbatim>\<open>str.strip\<close>, \<^verbatim>\<open>str.title\<close> and \<^verbatim>\<open>float\<close> on a string with a character outside ASCII;
  \<^item> \<open>str_other\<close>: \<^verbatim>\<open>str\<close> of a float, a list or a dictionary, as an f-string inserts it;
  \<^item> \<open>short_date\<close>: \<^verbatim>\<open>datetime.fromisoformat(s.replace('Z', '+00:00')).strftime('%m/%d/%y')\<close>,
    \<open>None\<close> when it raises;
  \<^item> \<open>long_date\<close>: the same parse, then \<^verbatim>\<open>astimezone()\<close> and
    \<^verbatim>\<open>strftime('%A, %B %d, %Y at %I:%M %p %Z')\<close> in the local time zone, \<open>None\<close> when it raises.
\<close>

record platform =
  unicode_lower :: "string \<Rightarrow> string"
  unicode_strip :: "string \<Rightarrow> string"
  unicode_title :: "string \<Rightarrow> string"
  unicode_float :: "string \<Rightarrow> pyerr + pyfloat"
  str_other :: "json \<Rightarrow> string"
  short_date :: "string \<Rightarrow> string option"
  long_date :: "string \<Rightarrow> string option"

definition lower :: "platform \<Rightarrow> string \<Rightarrow> string" where
  "lower P s = (if list_all is_ascii s then map to_lower s else unicode_lower P s)"

definition strip :: "platform \<Rightarrow> string \<Rightarrow> string" where
  "strip P s = (if list_all is_ascii s then strip_by is_space s else unicode_strip P s)"

definition float_of_str :: "platform \<Rightarrow> string \<Rightarrow> pyerr + pyfloat" where
  "float_of_str P s = (if list_all is_ascii s then float_of_ascii s else unicode_float P s)"

subsection \<open>Operations on values\<close>

definition bind :: "pyerr + 'a \<Rightarrow> ('a \<Rightarrow> pyerr + 'b) \<Rightarrow> pyerr + 'b" where
  "bind r f = (case r of Inl e \<Rightarrow> Inl e | Inr v \<Rightarrow> f v)"

text \<open>Truth value testing: \<^verbatim>\<open>if x\<close>, \<^verbatim>\<open>not x\<close>, \<^verbatim>\<open>x and y\<close>.\<close>

fun truthy :: "json \<Rightarrow> bool" where
  "truthy JNull = False"
| "truthy (JBool b) = b"
| "truthy (JInt n) = (n \<noteq> 0)"
| "truthy (JFloat f) = (f \<noteq> PosZero \<and> f \<noteq> NegZero)"
| "truthy (JStr s) = (s \<noteq> [])"
| "truthy (JArr xs) = (xs \<noteq> [])"
| "truthy (JObj kvs) = (kvs \<noteq> [])"

text \<open>\<^verbatim>\<open>x.get(k, d)\<close>: only a dictionary has the method.\<close>

fun get :: "json \<Rightarrow> string \<Rightarrow> json \<Rightarrow> pyerr + json" where
  "get (JObj kvs) k d = Inr (case map_of kvs k of Some v \<Rightarrow> v | None \<Rightarrow> d)"
| "get _ k d = Inl AttributeError"

text \<open>
  The characters of a string: a byte that is no UTF-8 continuation byte starts one.
\<close>

definition is_cont :: "char \<Rightarrow> bool" where
  "is_cont c = (128 \<le> (of_char c :: nat) \<and> (of_char c :: nat) < 192)"

function utf8_chars :: "string \<Rightarrow> string list" where
  "utf8_chars [] = []"
| "utf8_chars (c # cs) = (c # takeWhile is_cont cs) # utf8_chars (dropWhile is_cont cs)"
  by pat_completeness auto
termination
  by (relation "measure length") (auto simp: length_dropWhile_le less_Suc_eq_le)

text \<open>
  \<^verbatim>\<open>for x in v\<close>: the elements of a list, the keys of a dictionary, the characters of a
  string; nothing else that JSON decodes to can be iterated.
\<close>

fun iter :: "json \<Rightarrow> pyerr + json list" where
  "iter (JArr xs) = Inr xs"
| "iter (JObj kvs) = Inr (map (\<lambda>kv. JStr (fst kv)) (AList.clearjunk kvs))"
| "iter (JStr s) = Inr (map JStr (utf8_chars s))"
| "iter _ = Inl TypeError"

text \<open>\<^verbatim>\<open>v[0]\<close>. A dictionary decoded from JSON has string keys only, so \<open>0\<close> is never one.\<close>

fun index0 :: "json \<Rightarrow> pyerr + json" where
  "index0 (JArr xs) = (case xs of [] \<Rightarrow> Inl IndexError | x # _ \<Rightarrow> Inr x)"
| "index0 (JStr s) = (case utf8_chars s of [] \<Rightarrow> Inl IndexError | c # _ \<Rightarrow> Inr (JStr c))"
| "index0 (JObj kvs) = Inl KeyError"
| "index0 _ = Inl TypeError"

text \<open>
  Numbers compare by value across \<^verbatim>\<open>bool\<close>, \<^verbatim>\<open>int\<close> and \<^verbatim>\<open>float\<close>; NaN equals nothing and
  is neither less nor greater than anything.
\<close>

datatype num = Exact rat | Plus_Inf | Minus_Inf | Not_A_Number

fun num_of_float :: "pyfloat \<Rightarrow> num" where
  "num_of_float (Finite r) = Exact r"
| "num_of_float PosZero = Exact 0"
| "num_of_float NegZero = Exact 0"
| "num_of_float PosInf = Plus_Inf"
| "num_of_float NegInf = Minus_Inf"
| "num_of_float NaN = Not_A_Number"

fun num_of :: "json \<Rightarrow> num option" where
  "num_of (JBool b) = Some (Exact (if b then 1 else 0))"
| "num_of (JInt n) = Some (Exact (of_int n))"
| "num_of (JFloat f) = Some (num_of_float f)"
| "num_of _ = None"

fun num_eq :: "num \<Rightarrow> num \<Rightarrow> bool" where
  "num_eq (Exact a) (Exact b) = (a = b)"
| "num_eq Plus_Inf Plus_Inf = True"
| "num_eq Minus_Inf Minus_Inf = True"
| "num_eq _ _ = False"

fun num_less :: "num \<Rightarrow> num \<Rightarrow> bool" where
  "num_less Not_A_Number _ = False"
| "num_less _ Not_A_Number = False"
| "num_less (Exact a) (Exact b) = (a < b)"
| "num_less Minus_Inf Minus_Inf = False"
| "num_less Minus_Inf _ = True"
| "num_less _ Minus_Inf = False"
| "num_less Plus_Inf _ = False"
| "num_less _ Plus_Inf = True"

text \<open>\<^verbatim>\<open>x > k\<close> and \<^verbatim>\<open>x <= k\<close> for an integer literal \<open>k\<close>: a \<^verbatim>\<open>TypeError\<close> unless \<open>x\<close> is a number.\<close>

definition gt_int :: "json \<Rightarrow> int \<Rightarrow> pyerr + bool" where
  "gt_int x k = (case num_of x of None \<Rightarrow> Inl TypeError | Some n \<Rightarrow> Inr (num_less (Exact (of_int k)) n))"

definition le_int :: "json \<Rightarrow> int \<Rightarrow> pyerr + bool" where
  "le_int x k =
     (case num_of x of None \<Rightarrow> Inl TypeError
      | Some n \<Rightarrow> Inr (num_less n (Exact (of_int k)) \<or> num_eq n (Exact (of_int k))))"

text \<open>
  \<^verbatim>\<open>x == y\<close>: strings by content, lists element by element, dictionaries key by key,
  numbers by value, and values of different kinds are never equal.
\<close>

function eq :: "json \<Rightarrow> json \<Rightarrow> bool" where
  "eq x y =
     (case (x, y) of
        (JNull, JNull) \<Rightarrow> True
      | (JStr a, JStr b) \<Rightarrow> a = b
      | (JArr xs, JArr ys) \<Rightarrow>
          length xs = length ys \<and> list_all (\<lambda>(u, v). eq u v) (zip xs ys)
      | (JObj a, JObj b) \<Rightarrow>
          length (AList.clearjunk a) = length (AList.clearjunk b) \<and>
          list_all (\<lambda>(k, u). case map_of b k of Some v \<Rightarrow> eq u v | None \<Rightarrow> False)
            (AList.clearjunk a)
      | _ \<Rightarrow> (case (num_of x, num_of y) of (Some m, Some n) \<Rightarrow> num_eq m n | _ \<Rightarrow> False))"
  by pat_completeness auto

termination eq
proof (relation "measure (\<lambda>(x, y). size x)")
  show "wf (measure (\<lambda>(x, y). size x))" by simp
next
  fix x y xa ya u v :: json and xs ys :: "json list" and z
  assume "(xa, ya) = (x, y)" "xa = JArr xs" "z \<in> set (zip xs ys)" "(u, v) = z"
  then have "u \<in> set xs" "x = JArr xs" by (auto dest: set_zip_leftD)
  moreover have "size w < Suc (size_list size ws)" if "w \<in> set ws" for w :: json and ws
    using that by (induction ws) auto
  ultimately show "((u, v), x, y) \<in> measure (\<lambda>(x, y). size x)" by simp
next
  fix x y xa ya u w :: json and a :: "(string \<times> json) list" and z k
  assume "(xa, ya) = (x, y)" "xa = JObj a" "z \<in> set (AList.clearjunk a)" "(k, u) = z"
  moreover have "set (AList.clearjunk al) \<subseteq> set al" for al :: "(string \<times> json) list"
    by (induction al rule: AList.clearjunk.induct) (auto simp: AList.delete_eq)
  ultimately have "(k, u) \<in> set a" "x = JObj a" by auto
  moreover have "size c < Suc (size_list (size_prod (\<lambda>_. 0) size) b)"
    if "(j, c) \<in> set b" for j :: string and c :: json and b
    using that by (induction b) auto
  ultimately show "((u, w), x, y) \<in> measure (\<lambda>(x, y). size x)" by simp
qed

declare eq.simps [simp del]

text \<open>What an f-string inserts for \<^verbatim>\<open>{v}\<close>.\<close>

definition fstr :: "platform \<Rightarrow> json \<Rightarrow> string" where
  "fstr P v =
     (case v of
        JStr s \<Rightarrow> s
      | JNull \<Rightarrow> ''None''
      | JBool b \<Rightarrow> (if b then ''True'' else ''False'')
      | JInt n \<Rightarrow> str_int n
      | _ \<Rightarrow> str_other P v)"

text \<open>
  \<^verbatim>\<open>float(v)\<close>: an integer is rounded to the nearest double and raises when that is
  infinite; \<^verbatim>\<open>None\<close>, lists and dictionaries raise.
\<close>

fun to_float :: "platform \<Rightarrow> json \<Rightarrow> pyerr + pyfloat" where
  "to_float P (JBool b) = Inr (if b then Finite 1 else PosZero)"
| "to_float P (JInt n) =
     (case round_double (n < 0) (of_int \<bar>n\<bar>) of
        PosInf \<Rightarrow> Inl OverflowError
      | NegInf \<Rightarrow> Inl OverflowError
      | f \<Rightarrow> Inr f)"
| "to_float P (JFloat f) = Inr f"
| "to_float P (JStr s) = float_of_str P s"
| "to_float P _ = Inl TypeError"

text \<open>\<^verbatim>\<open>int(float(v))\<close>\<close>

definition int_float :: "platform \<Rightarrow> json \<Rightarrow> pyerr + int" where
  "int_float P v = bind (to_float P v) int_of_float"

definition join_with :: "string \<Rightarrow> string list \<Rightarrow> string" where
  "join_with sep xs = (case xs of [] \<Rightarrow> [] | x # r \<Rightarrow> foldl (\<lambda>a b. a @ sep @ b) x r)"

text \<open>\<^verbatim>\<open>f"{s:>7}"\<close> for a string of one-byte characters.\<close>

definition rjust :: "nat \<Rightarrow> string \<Rightarrow> string" where
  "rjust n s = replicate (n - length s) CHR '' '' @ s"

section \<open>The program\<close>

subsection \<open>Rank display\<close>

text \<open>
  The test \<^verbatim>\<open>rank > 0 and rank <= 25\<close> and the two f-strings after it stand four times in
  \<^verbatim>\<open>display_team_info\<close>: for the team header, for the opponent of a completed game, and for
  the home and the away team of the next game. The four differ in the text for an unranked
  team only, which is the first argument here.
\<close>

definition ranked :: "json \<Rightarrow> pyerr + bool" where
  "ranked r = bind (gt_int r 0) (\<lambda>a. if a then le_int r 25 else Inr False)"

definition with_rank :: "platform \<Rightarrow> string \<Rightarrow> json \<Rightarrow> json \<Rightarrow> pyerr + string" where
  "with_rank P unranked r name =
     bind (ranked r) (\<lambda>t.
       Inr (if t then ''#'' @ fstr P r @ '' '' @ fstr P name
            else unranked @ '' '' @ fstr P name))"

subsection \<open>\<^verbatim>\<open>find_next_game\<close>\<close>

text \<open>
  Both scans of the schedule start an event the same way:
  \<^verbatim>\<open>competitions = event.get('competitions', [])\<close>, \<^verbatim>\<open>if not competitions: continue\<close>,
  \<^verbatim>\<open>competition = competitions[0]\<close>, then \<^verbatim>\<open>status.get('type', {}).get('name', '')\<close>.
\<close>

definition first_competition :: "json \<Rightarrow> pyerr + json option" where
  "first_competition event =
     bind (get event ''competitions'' (JArr [])) (\<lambda>cs.
       if \<not> truthy cs then Inr None else bind (index0 cs) (\<lambda>c. Inr (Some c)))"

definition status_type :: "json \<Rightarrow> pyerr + json" where
  "status_type competition =
     bind (get competition ''status'' (JObj [])) (\<lambda>status.
     bind (get status ''type'' (JObj [])) (\<lambda>ty.
     get ty ''name'' (JStr '''')))"

fun first_open :: "json list \<Rightarrow> pyerr + json option" where
  "first_open [] = Inr None"
| "first_open (event # rest) =
     bind (first_competition event) (\<lambda>c.
       case c of
         None \<Rightarrow> first_open rest
       | Some competition \<Rightarrow>
           bind (status_type competition) (\<lambda>st.
             if \<not> (eq st (JStr ''STATUS_FINAL'') \<or> eq st (JStr ''STATUS_POSTPONED''))
             then Inr (Some event)
             else first_open rest))"

definition find_next_game :: "json \<Rightarrow> pyerr + json option" where
  "find_next_game schedule_data =
     (if \<not> truthy schedule_data then Inr None
      else bind (get schedule_data ''events'' (JArr [])) (\<lambda>events.
           bind (iter events) first_open))"

subsection \<open>Output\<close>

text \<open>
  A part of the program that prints yields the arguments of its \<^verbatim>\<open>print\<close> calls in
  order, one string each (a newline inside one is the character \<open>0x0A\<close>), and the
  exception that ended it, if one did. What was printed before an exception stays printed.
\<close>

type_synonym out = "string list \<times> pyerr option"

definition printed :: "string list \<Rightarrow> out" where
  "printed ls = (ls, None)"

definition and_then :: "out \<Rightarrow> out \<Rightarrow> out" where
  "and_then a b =
     (case a of (ls, Some e) \<Rightarrow> (ls, Some e) | (ls, None) \<Rightarrow> (ls @ fst b, snd b))"

definition with_value :: "pyerr + 'a \<Rightarrow> ('a \<Rightarrow> out) \<Rightarrow> out" where
  "with_value r f = (case r of Inl e \<Rightarrow> ([], Some e) | Inr v \<Rightarrow> f v)"

definition nl :: char where
  "nl = CHR 0x0A"

text \<open>The symbols before the headings, as the bytes the source file holds.\<close>

definition sym_cross :: string where
  "sym_cross = [CHR 0xE2, CHR 0x80, CHR 0x9A, CHR 0xC3, CHR 0xB9, CHR 0xC3, CHR 0xA5]"

definition sym_check :: string where
  "sym_check = [CHR 0xE2, CHR 0x80, CHR 0x9A, CHR 0xC3, CHR 0xBA, CHR 0xC3, CHR 0xAC]"

definition sym_chart :: string where
  "sym_chart = [CHR 0xEF, CHR 0xA3, CHR 0xBF, CHR 0xC3, CHR 0xBC, CHR 0xC3, CHR 0xAC, CHR 0xC3, CHR 0xA4]"

definition sym_calendar :: string where
  "sym_calendar = [CHR 0xEF, CHR 0xA3, CHR 0xBF, CHR 0xC3, CHR 0xBC, CHR 0xC3, CHR 0xAC, CHR 0xC3, CHR 0x96]"

definition sym_ball :: string where
  "sym_ball = [CHR 0xEF, CHR 0xA3, CHR 0xBF, CHR 0xC3, CHR 0xBC, CHR 0xC3, CHR 0xA8, CHR 0xC3, CHR 0xA0]"

definition sym_tv :: string where
  "sym_tv = [CHR 0xEF, CHR 0xA3, CHR 0xBF, CHR 0xC3, CHR 0xBC, CHR 0xC3, CHR 0xAC, CHR 0xE2, CHR 0x88, CHR 0xAB]"

subsection \<open>\<^verbatim>\<open>display_team_info\<close>: header and record\<close>

definition header :: "platform \<Rightarrow> json \<Rightarrow> out" where
  "header P team =
     with_value (get team ''displayName'' (JStr ''Unknown Team'')) (\<lambda>team_name.
     with_value (get team ''rank'' (JInt 0)) (\<lambda>rank.
     with_value (with_rank P ''(UR)'' rank team_name) (\<lambda>team_display.
       printed [nl # replicate 70 CHR ''='', ''  '' @ team_display, replicate 70 CHR ''=''])))"

definition is_overall :: "json \<Rightarrow> pyerr + bool" where
  "is_overall item =
     bind (get item ''type'' JNull) (\<lambda>t.
       if eq t (JStr ''total'') then Inr True
       else bind (get item ''name'' JNull) (\<lambda>n. Inr (eq n (JStr ''overall''))))"

text \<open>The \<^verbatim>\<open>for item in record_items\<close> loop up to its \<^verbatim>\<open>break\<close>: the item it stops at.\<close>

fun find_overall :: "json list \<Rightarrow> pyerr + json option" where
  "find_overall [] = Inr None"
| "find_overall (item # rest) =
     bind (is_overall item) (\<lambda>b. if b then Inr (Some item) else find_overall rest)"

text \<open>
  The loop over \<^verbatim>\<open>stats\<close> assigns \<^verbatim>\<open>wins\<close> and \<^verbatim>\<open>losses\<close>, which nothing reads afterwards;
  it can still raise.
\<close>

fun stats_loop :: "json list \<Rightarrow> json option \<times> json option \<Rightarrow> pyerr + json option \<times> json option" where
  "stats_loop [] wl = Inr wl"
| "stats_loop (stat # rest) wl =
     bind (get stat ''name'' JNull) (\<lambda>n.
       if eq n (JStr ''wins'') then
         bind (get stat ''value'' (JInt 0)) (\<lambda>v. stats_loop rest (Some v, snd wl))
       else if eq n (JStr ''losses'') then
         bind (get stat ''value'' (JInt 0)) (\<lambda>v. stats_loop rest (fst wl, Some v))
       else stats_loop rest wl)"

definition record_line :: "platform \<Rightarrow> json \<Rightarrow> string" where
  "record_line P summary = nl # sym_chart @ '' Current Record: '' @ fstr P summary"

definition record_section :: "platform \<Rightarrow> json \<Rightarrow> out" where
  "record_section P team =
     with_value (get team ''record'' (JObj [])) (\<lambda>r.
     with_value (get r ''items'' (JArr [])) (\<lambda>record_items.
       if truthy record_items then
         with_value (iter record_items) (\<lambda>items.
         with_value (find_overall items) (\<lambda>found.
           case found of
             Some item \<Rightarrow>
               with_value (get item ''summary'' (JStr ''N/A'')) (\<lambda>summary.
                 and_then (printed [record_line P summary])
                   (with_value (get item ''stats'' (JArr [])) (\<lambda>stats.
                    with_value (iter stats) (\<lambda>ss.
                    with_value (stats_loop ss (None, None)) (\<lambda>_. printed [])))))
           | None \<Rightarrow>
               with_value (index0 record_items) (\<lambda>first.
               with_value (get first ''summary'' (JStr ''N/A'')) (\<lambda>summary.
                 printed [record_line P summary]))))
       else printed [record_line P (JStr ''N/A'')]))"

subsection \<open>\<^verbatim>\<open>display_team_info\<close>: season results\<close>

text \<open>
  The loop over \<^verbatim>\<open>competitors\<close> of a completed game: the last competitor whose team id
  equals ours, and the last whose id does not (\<^verbatim>\<open>None\<close> is \<open>JNull\<close>). It also reads
  \<^verbatim>\<open>homeAway\<close> of each, into variables this part of the program does not use.
\<close>

fun pick_sides :: "json \<Rightarrow> json list \<Rightarrow> json \<times> json \<Rightarrow> pyerr + json \<times> json" where
  "pick_sides our_team_id [] acc = Inr acc"
| "pick_sides our_team_id (competitor # rest) acc =
     bind (get competitor ''homeAway'' JNull) (\<lambda>_.
     bind (get competitor ''team'' (JObj [])) (\<lambda>t.
     bind (get t ''id'' JNull) (\<lambda>i.
       if eq i our_team_id then pick_sides our_team_id rest (competitor, snd acc)
       else pick_sides our_team_id rest (fst acc, competitor))))"

text \<open>
  \<^verbatim>\<open>raw.get('value', raw) if isinstance(raw, dict) else raw\<close>
\<close>

definition unwrap_score :: "json \<Rightarrow> json" where
  "unwrap_score raw =
     (case raw of
        JObj kvs \<Rightarrow> (case map_of kvs ''value'' of Some v \<Rightarrow> v | None \<Rightarrow> raw)
      | _ \<Rightarrow> raw)"

definition scores :: "platform \<Rightarrow> json \<Rightarrow> json \<Rightarrow> pyerr + int \<times> int" where
  "scores P our_team_info opponent_info =
     bind (get our_team_info ''score'' (JInt 0)) (\<lambda>our_score_raw.
     bind (get opponent_info ''score'' (JInt 0)) (\<lambda>opp_score_raw.
     bind (int_float P (unwrap_score our_score_raw)) (\<lambda>our_score.
     bind (int_float P (unwrap_score opp_score_raw)) (\<lambda>opp_score.
       Inr (our_score, opp_score)))))"

definition win_loss :: "int \<Rightarrow> int \<Rightarrow> string" where
  "win_loss our_score opp_score = (if our_score > opp_score then ''W'' else ''L'')"

text \<open>
  The date of a completed game: \<^verbatim>\<open>'Unknown'\<close> unless \<^verbatim>\<open>date_str\<close> is true and the parse
  succeeds. A true value that is no string has no \<^verbatim>\<open>replace\<close>; the bare \<^verbatim>\<open>except\<close>
  swallows that too.
\<close>

definition game_date :: "platform \<Rightarrow> json \<Rightarrow> string" where
  "game_date P date_str =
     (case date_str of
        JStr s \<Rightarrow> (if s = [] then ''Unknown''
                   else (case short_date P s of Some d \<Rightarrow> d | None \<Rightarrow> ''Unknown''))
      | _ \<Rightarrow> ''Unknown'')"

record game =
  date :: string
  result :: string
  score :: string
  opponent :: string
  location :: string

definition completed_game :: "platform \<Rightarrow> json \<Rightarrow> json \<Rightarrow> json \<Rightarrow> pyerr + game" where
  "completed_game P event our_team_info opponent_info =
     bind (scores P our_team_info opponent_info) (\<lambda>sc.
     bind (get opponent_info ''team'' (JObj [])) (\<lambda>t.
     bind (get t ''displayName'' (JStr ''Unknown'')) (\<lambda>opp_name.
     bind (get opponent_info ''curatedRank'' (JObj [])) (\<lambda>cr.
     bind (get cr ''current'' (JInt 0)) (\<lambda>opp_rank.
     bind (get our_team_info ''homeAway'' JNull) (\<lambda>home_away.
     bind (with_rank P ''(UR)'' opp_rank opp_name) (\<lambda>opp_display.
     bind (get event ''date'' (JStr '''')) (\<lambda>date_str.
       Inr \<lparr> date = game_date P date_str,
             result = win_loss (fst sc) (snd sc),
             score = str_int (fst sc) @ ''-'' @ str_int (snd sc),
             opponent = opp_display,
             location = (if eq home_away (JStr ''home'') then ''vs'' else ''@'') \<rparr>))))))))"

text \<open>The body of the loop over \<^verbatim>\<open>events\<close>: the game the event adds, if it adds one.\<close>

definition season_game :: "platform \<Rightarrow> json \<Rightarrow> json \<Rightarrow> pyerr + game option" where
  "season_game P team event =
     bind (first_competition event) (\<lambda>c.
       case c of
         None \<Rightarrow> Inr None
       | Some competition \<Rightarrow>
           bind (status_type competition) (\<lambda>st.
             if eq st (JStr ''STATUS_FINAL'') then
               bind (get competition ''competitors'' (JArr [])) (\<lambda>competitors.
               bind (get team ''id'' JNull) (\<lambda>our_team_id.
               bind (iter competitors) (\<lambda>comps.
               bind (pick_sides our_team_id comps (JNull, JNull)) (\<lambda>sides.
                 if truthy (fst sides) \<and> truthy (snd sides) then
                   bind (completed_game P event (fst sides) (snd sides)) (\<lambda>g. Inr (Some g))
                 else Inr None))))
             else Inr None))"

fun completed_games :: "platform \<Rightarrow> json \<Rightarrow> json list \<Rightarrow> pyerr + game list" where
  "completed_games P team [] = Inr []"
| "completed_games P team (event # rest) =
     bind (season_game P team event) (\<lambda>g.
     bind (completed_games P team rest) (\<lambda>gs.
       Inr (case g of None \<Rightarrow> gs | Some x \<Rightarrow> x # gs)))"

definition game_line :: "game \<Rightarrow> string" where
  "game_line g =
     ''   '' @ date g @ ''  '' @ result g @ ''  '' @ rjust 7 (score g) @ ''  '' @
     location g @ '' '' @ opponent g"

definition season_section :: "platform \<Rightarrow> json \<Rightarrow> json \<Rightarrow> out" where
  "season_section P team schedule_data =
     (if truthy schedule_data then
        with_value (get schedule_data ''events'' (JArr [])) (\<lambda>events.
        with_value (iter events) (\<lambda>evs.
        with_value (completed_games P team evs) (\<lambda>games.
          if games \<noteq> [] then
            printed ((nl # sym_calendar @ '' SEASON RESULTS'') # replicate 70 CHR ''-'' #
                     map game_line games)
          else printed [nl # sym_calendar @ '' No games completed yet this season''])))
      else printed [])"

subsection \<open>\<^verbatim>\<open>display_team_info\<close>: next game\<close>

text \<open>The loop over \<^verbatim>\<open>competitors\<close> of the next game: the last home and the last other one.\<close>

fun home_away :: "json list \<Rightarrow> json \<times> json \<Rightarrow> pyerr + json \<times> json" where
  "home_away [] acc = Inr acc"
| "home_away (competitor # rest) acc =
     bind (get competitor ''homeAway'' JNull) (\<lambda>v.
       if eq v (JStr ''home'') then home_away rest (competitor, snd acc)
       else home_away rest (fst acc, competitor))"

definition matchup :: "platform \<Rightarrow> json \<Rightarrow> json \<Rightarrow> json \<Rightarrow> out" where
  "matchup P our_team_id home_team away_team =
     (if truthy home_team \<and> truthy away_team then
        with_value (get home_team ''team'' (JObj [])) (\<lambda>ht.
        with_value (get ht ''displayName'' (JStr ''Unknown'')) (\<lambda>home_name.
        with_value (get away_team ''team'' (JObj [])) (\<lambda>awt.
        with_value (get awt ''displayName'' (JStr ''Unknown'')) (\<lambda>away_name.
        with_value (get home_team ''curatedRank'' (JObj [])) (\<lambda>hr.
        with_value (get hr ''current'' (JInt 0)) (\<lambda>home_rank.
        with_value (get away_team ''curatedRank'' (JObj [])) (\<lambda>ar.
        with_value (get ar ''current'' (JInt 0)) (\<lambda>away_rank.
        with_value (with_rank P ''(UR)'' home_rank home_name) (\<lambda>home_display.
        with_value (with_rank P ''UR'' away_rank away_name) (\<lambda>away_display.
        with_value (get ht ''id'' JNull) (\<lambda>home_id.
          if eq home_id our_team_id then
            printed [''   Opponent: '' @ away_display, ''   Location: Home'']
          else
            printed [''   Opponent: '' @ home_display,
                     ''   Location: Away @ '' @ fstr P home_name])))))))))))
      else printed [])"

text \<open>
  \<^verbatim>\<open>format_datetime\<close>: the formatted local time, or its argument unchanged when anything
  raises (a value that is no string has no \<^verbatim>\<open>replace\<close>).
\<close>

definition format_datetime :: "platform \<Rightarrow> json \<Rightarrow> json" where
  "format_datetime P date_str =
     (case date_str of
        JStr s \<Rightarrow> (case long_date P s of Some f \<Rightarrow> JStr f | None \<Rightarrow> date_str)
      | _ \<Rightarrow> date_str)"

definition date_time :: "platform \<Rightarrow> json \<Rightarrow> out" where
  "date_time P next_game =
     with_value (get next_game ''date'' (JStr '''')) (\<lambda>date_str.
       if truthy date_str then
         printed [''   Date/Time: '' @ fstr P (format_datetime P date_str)]
       else printed [])"

definition venue_lines :: "platform \<Rightarrow> json \<Rightarrow> out" where
  "venue_lines P competition =
     with_value (get competition ''venue'' (JObj [])) (\<lambda>venue.
       if truthy venue then
         with_value (get venue ''fullName'' (JStr '''')) (\<lambda>venue_name.
         with_value (get venue ''address'' (JObj [])) (\<lambda>address.
         with_value (get address ''city'' (JStr '''')) (\<lambda>city.
         with_value (get address ''state'' (JStr '''')) (\<lambda>state.
           if truthy venue_name then
             printed ((''   Venue: '' @ fstr P venue_name) #
               (if truthy city \<and> truthy state
                then [''          '' @ fstr P city @ '', '' @ fstr P state] else []))
           else printed []))))
       else printed [])"

text \<open>\<^verbatim>\<open>networks.extend(names)\<close> for every broadcast.\<close>

fun networks :: "json list \<Rightarrow> pyerr + json list" where
  "networks [] = Inr []"
| "networks (broadcast # rest) =
     bind (get broadcast ''names'' (JArr [])) (\<lambda>names.
     bind (iter names) (\<lambda>ns.
     bind (networks rest) (\<lambda>more. Inr (ns @ more))))"

text \<open>\<^verbatim>\<open>sep.join(xs)\<close> raises unless every item is a string.\<close>

fun strings :: "json list \<Rightarrow> pyerr + string list" where
  "strings [] = Inr []"
| "strings (JStr s # rest) = bind (strings rest) (\<lambda>ss. Inr (s # ss))"
| "strings (_ # rest) = Inl TypeError"

definition tv_line :: "json \<Rightarrow> out" where
  "tv_line competition =
     with_value (get competition ''broadcasts'' (JArr [])) (\<lambda>broadcasts.
       if truthy broadcasts then
         with_value (iter broadcasts) (\<lambda>bs.
         with_value (networks bs) (\<lambda>nets.
           if nets \<noteq> [] then
             with_value (strings nets) (\<lambda>ss.
               printed [nl # sym_tv @ '' TV: '' @ join_with '', '' ss])
           else printed []))
       else printed [])"

definition no_upcoming :: out where
  "no_upcoming =
     printed [nl # sym_ball @ '' No upcoming games scheduled'',
              ''   The season may have ended or the schedule is not yet available.'']"

definition next_game_section :: "platform \<Rightarrow> json \<Rightarrow> json \<Rightarrow> out" where
  "next_game_section P team schedule_data =
     with_value (find_next_game schedule_data) (\<lambda>found.
       case found of
         None \<Rightarrow> no_upcoming
       | Some next_game \<Rightarrow>
           if truthy next_game then
             and_then (printed [nl # sym_ball @ '' NEXT GAME'', replicate 70 CHR ''-''])
               (with_value (get next_game ''competitions'' (JArr [])) (\<lambda>competitions.
                  if truthy competitions then
                    with_value (index0 competitions) (\<lambda>competition.
                    with_value (get competition ''competitors'' (JArr [])) (\<lambda>competitors.
                    with_value (get team ''id'' JNull) (\<lambda>our_team_id.
                    with_value (iter competitors) (\<lambda>cs.
                    with_value (home_away cs (JNull, JNull)) (\<lambda>sides.
                      and_then (matchup P our_team_id (fst sides) (snd sides))
                     (and_then (date_time P next_game)
                     (and_then (venue_lines P competition)
                               (tv_line competition))))))))
                  else printed []))
           else no_upcoming)"

subsection \<open>\<^verbatim>\<open>display_team_info\<close>\<close>

definition display_team_info :: "platform \<Rightarrow> json \<Rightarrow> json \<Rightarrow> out" where
  "display_team_info P team_data schedule_data =
     (if \<not> truthy team_data then
        printed [sym_cross @ '' Could not retrieve team information'']
      else
        with_value (get team_data ''team'' (JObj [])) (\<lambda>team.
          and_then (header P team)
         (and_then (record_section P team)
         (and_then (season_section P team schedule_data)
         (and_then (next_game_section P team schedule_data)
                   (printed [nl # replicate 70 CHR ''='' @ [nl]]))))))"

subsection \<open>The team table and \<^verbatim>\<open>get_team_id\<close>\<close>

text \<open>The dictionary \<^verbatim>\<open>TEAM_IDS\<close>, in the order of the source.\<close>

definition TEAM_IDS :: "(string \<times> string) list" where
  "TEAM_IDS =
   [
    (''navy'', ''2426''), (''air force'', ''2005''), (''army'', ''349''),
     (''michigan'', ''130''), (''ohio state'', ''194''), (''alabama'', ''333''),
     (''georgia'', ''61''), (''clemson'', ''228''), (''notre dame'', ''87''),
     (''usc'', ''30''), (''texas'', ''251''), (''oklahoma'', ''201''),
     (''penn state'', ''213''), (''florida'', ''57''), (''lsu'', ''99''),
     (''oregon'', ''2483''), (''washington'', ''264''), (''miami'', ''2390''),
     (''florida state'', ''52''), (''tennessee'', ''2633''), (''auburn'', ''2''),
     (''wisconsin'', ''275''), (''texas a&m'', ''245''), (''stanford'', ''24''),
     (''ucla'', ''26''), (''texas tech'', ''2641''), (''ole miss'', ''145''),
     (''mississippi state'', ''344''), (''arkansas'', ''8''), (''kentucky'', ''96''),
     (''south carolina'', ''2579''), (''vanderbilt'', ''238''), (''missouri'', ''142''),
     (''kansas'', ''2305''), (''kansas state'', ''2306''), (''iowa state'', ''66''),
     (''baylor'', ''239''), (''tcu'', ''2628''), (''oklahoma state'', ''197''),
     (''west virginia'', ''277''), (''utah'', ''254''), (''colorado'', ''38''),
     (''arizona'', ''12''), (''arizona state'', ''9''), (''cal'', ''25''),
     (''boston college'', ''103''), (''syracuse'', ''183''), (''pitt'', ''221''),
     (''virginia'', ''258''), (''virginia tech'', ''259''), (''nc state'', ''152''),
     (''north carolina'', ''153''), (''duke'', ''150''), (''wake forest'', ''154''),
     (''louisville'', ''97''), (''houston'', ''248''), (''ucf'', ''2116''),
     (''cincinnati'', ''2132''), (''byu'', ''252''), (''smu'', ''2567''),
     (''memphis'', ''235''), (''tulane'', ''2655'')]"

text \<open>
  The functions that read the global \<^verbatim>\<open>TEAM_IDS\<close> take the table as their first
  argument; the program runs them on \<open>TEAM_IDS\<close>.
\<close>

definition get_team_id :: "(string \<times> string) list \<Rightarrow> platform \<Rightarrow> string \<Rightarrow> string option" where
  "get_team_id ids P team_name = map_of ids (lower P team_name)"

subsection \<open>\<^verbatim>\<open>main\<close>\<close>

text \<open>
  What a run does, in order: a \<^verbatim>\<open>print\<close>, the prompt of an \<^verbatim>\<open>input\<close>, or a GET request.
\<close>

datatype effect = Print string | Input string | Get string

text \<open>
  The network is a function from the URL requested to the decoded document, or to the text
  of the exception that \<^verbatim>\<open>requests.get\<close>, \<^verbatim>\<open>raise_for_status\<close> or \<^verbatim>\<open>response.json\<close> raised
  (a timeout after 10 seconds is one of them). Both fetch functions catch it, print it and
  return \<^verbatim>\<open>None\<close>.
\<close>

type_synonym network = "string \<Rightarrow> string + json"

definition api :: string where
  "api = ''https://site.api.espn.com/apis/site/v2/sports/football/college-football/teams/''"

definition get_team_data :: "network \<Rightarrow> string \<Rightarrow> effect list \<times> json" where
  "get_team_data net team_id =
     (case net (api @ team_id) of
        Inr doc \<Rightarrow> ([Get (api @ team_id)], doc)
      | Inl e \<Rightarrow> ([Get (api @ team_id), Print (''Error fetching team data: '' @ e)], JNull))"

definition get_team_schedule :: "network \<Rightarrow> string \<Rightarrow> effect list \<times> json" where
  "get_team_schedule net team_id =
     (case net (api @ team_id @ ''/schedule'') of
        Inr doc \<Rightarrow> ([Get (api @ team_id @ ''/schedule'')], doc)
      | Inl e \<Rightarrow>
          ([Get (api @ team_id @ ''/schedule''), Print (''Error fetching schedule: '' @ e)], JNull))"

text \<open>\<^verbatim>\<open>str.title\<close> on ASCII: a letter is upper case exactly when no letter stands before it.\<close>

fun title_from :: "bool \<Rightarrow> string \<Rightarrow> string" where
  "title_from previous_is_cased [] = []"
| "title_from previous_is_cased (c # cs) =
     (if is_lower c then (if previous_is_cased then c else to_upper c) # title_from True cs
      else if is_upper c then (if previous_is_cased then to_lower c else c) # title_from True cs
      else c # title_from False cs)"

definition title :: "platform \<Rightarrow> string \<Rightarrow> string" where
  "title P s = (if list_all is_ascii s then title_from False s else unicode_title P s)"

text \<open>\<^verbatim>\<open>examples[i:i+3]\<close> for \<^verbatim>\<open>i\<close> in \<^verbatim>\<open>range(0, len(examples), 3)\<close>\<close>

fun chunks3 :: "'a list \<Rightarrow> 'a list list" where
  "chunks3 (a # b # c # rest) = [a, b, c] # chunks3 rest"
| "chunks3 [] = []"
| "chunks3 xs = [xs]"

definition quote :: char where
  "quote = CHR 0x27"

text \<open>The keys of the table, as \<^verbatim>\<open>TEAM_IDS.keys()\<close> lists them.\<close>

definition keys :: "(string \<times> string) list \<Rightarrow> string list" where
  "keys ids = map fst (AList.clearjunk ids)"

definition not_found :: "(string \<times> string) list \<Rightarrow> platform \<Rightarrow> string \<Rightarrow> string list" where
  "not_found ids P team_name =
     [nl # sym_cross @ '' Team '' @ [quote] @ team_name @ [quote] @ '' not found in database.'',
      nl # ''Supported teams include:''] @
     map (\<lambda>line. ''   '' @ join_with '', '' (map (title P) line)) (chunks3 (take 15 (keys ids))) @
     [''   ... and '' @ str_int (int (length (keys ids)) - 15) @ '' more'',
      nl # ''Try one of these team names.'']"

definition read_team_name :: "platform \<Rightarrow> string list \<Rightarrow> string option \<Rightarrow> effect list \<times> (pyerr + string)" where
  "read_team_name P args stdin =
     (if args \<noteq> [] then ([], Inr (join_with '' '' args))
      else ([Input ''Enter your college football team: ''],
            case stdin of None \<Rightarrow> Inl EOFError | Some line \<Rightarrow> Inr (strip P line)))"

text \<open>
  \<open>args\<close> is \<^verbatim>\<open>sys.argv[1:]\<close>; \<open>stdin\<close> is the line \<^verbatim>\<open>input\<close> reads, \<open>None\<close> at end of
  file. The result is everything the run did and the exception that ended it, if any.
\<close>

definition main ::
  "(string \<times> string) list \<Rightarrow> platform \<Rightarrow> network \<Rightarrow> string list \<Rightarrow> string option \<Rightarrow>
   effect list \<times> pyerr option" where
  "main ids P net args stdin =
     (let banner = Print (nl # sym_ball @ '' College Football Team Checker '' @ sym_ball @ [nl])
      in case read_team_name P args stdin of
        (asked, Inl e) \<Rightarrow> (banner # asked, Some e)
      | (asked, Inr team_name) \<Rightarrow>
          if team_name = [] then
            (banner # asked @ [Print ''No team name provided. Exiting.''], None)
          else
            let searching =
                  Print (nl # ''Searching for '' @ [quote] @ team_name @ [quote] @ ''...'');
                help = (banner # asked @ searching # map Print (not_found ids P team_name), None)
            in case get_team_id ids P team_name of
                 None \<Rightarrow> help
               | Some team_id \<Rightarrow>
                   if team_id = [] then help
                   else
                     (case get_team_data net team_id of (fetch1, team_data) \<Rightarrow>
                      case get_team_schedule net team_id of (fetch2, schedule_data) \<Rightarrow>
                      case display_team_info P team_data schedule_data of (shown, err) \<Rightarrow>
                        (banner # asked @
                         [searching,
                          Print (sym_check @ '' Found team (ID: '' @ team_id @ '')''),
                          Print ''Fetching team information...''] @
                         fetch1 @ fetch2 @ map Print shown,
                         err)))"

section \<open>What the claims speak of\<close>

subsection \<open>The status of an event\<close>

text \<open>
  The status both scans read off an event: the \<^verbatim>\<open>status.type.name\<close> of its first
  competition, \<open>None\<close> when it has no competition (the scans pass over it), and an
  exception when a value on the way has the wrong shape.
\<close>

definition event_status :: "json \<Rightarrow> pyerr + json option" where
  "event_status ev =
     bind (first_competition ev) (\<lambda>c.
       case c of None \<Rightarrow> Inr None
       | Some competition \<Rightarrow> bind (status_type competition) (\<lambda>st. Inr (Some st)))"

text \<open>An event can be read when that raises no exception.\<close>

definition readable :: "json \<Rightarrow> bool" where
  "readable ev = (case event_status ev of Inl e \<Rightarrow> False | Inr st \<Rightarrow> True)"

text \<open>An event is open when it has a status and that is neither final nor postponed.\<close>

definition is_open :: "json \<Rightarrow> bool" where
  "is_open ev =
     (case event_status ev of
        Inr (Some st) \<Rightarrow> st \<noteq> JStr ''STATUS_FINAL'' \<and> st \<noteq> JStr ''STATUS_POSTPONED''
      | _ \<Rightarrow> False)"

text \<open>An event is final when it has a status and that is \<^verbatim>\<open>STATUS_FINAL\<close>.\<close>

definition is_final :: "json \<Rightarrow> bool" where
  "is_final ev \<longleftrightarrow> event_status ev = Inr (Some (JStr ''STATUS_FINAL''))"

subsection \<open>The record list\<close>

text \<open>A value is a dictionary when it is a JSON object.\<close>

definition is_dict :: "json \<Rightarrow> bool" where
  "is_dict v = (case v of JObj kvs \<Rightarrow> True | _ \<Rightarrow> False)"

text \<open>An item counts as the overall record when its type is \<^verbatim>\<open>total\<close> or its name \<^verbatim>\<open>overall\<close>.\<close>

definition overall :: "json \<Rightarrow> bool" where
  "overall item \<longleftrightarrow>
     get item ''type'' JNull = Inr (JStr ''total'') \<or>
     get item ''name'' JNull = Inr (JStr ''overall'')"

text \<open>The summary of a record item, \<^verbatim>\<open>N/A\<close> when the item has none.\<close>

definition summary_of :: "json \<Rightarrow> json" where
  "summary_of item = (case get item ''summary'' (JStr ''N/A'') of Inr s \<Rightarrow> s | Inl e \<Rightarrow> JNull)"

subsection \<open>Scores\<close>

text \<open>
  The claim about scores, in its own words: a score is a bare value or an object that
  wraps one under \<^verbatim>\<open>value\<close>, and the value is read as a float and cut off towards zero.
  A bare value is an integer (below \<open>2 ^ 53\<close> in size, where every integer is a double),
  a float, or text that \<^verbatim>\<open>float\<close> reads.
\<close>

definition truncation :: "rat \<Rightarrow> int" where
  "truncation r = (if r < 0 then \<lceil>r\<rceil> else \<lfloor>r\<rfloor>)"

fun float_value :: "pyfloat \<Rightarrow> int option" where
  "float_value (Finite r) = Some (truncation r)"
| "float_value PosZero = Some 0"
| "float_value NegZero = Some 0"
| "float_value _ = None"

fun bare_value :: "platform \<Rightarrow> json \<Rightarrow> int option" where
  "bare_value P (JInt n) = (if \<bar>n\<bar> < 2 ^ 53 then Some n else None)"
| "bare_value P (JFloat f) = float_value f"
| "bare_value P (JStr s) = (case float_of_str P s of Inr f \<Rightarrow> float_value f | Inl e \<Rightarrow> None)"
| "bare_value P _ = None"

definition coerced :: "platform \<Rightarrow> json \<Rightarrow> int option" where
  "coerced P raw =
     (case raw of
        JObj kvs \<Rightarrow> (case map_of kvs ''value'' of Some v \<Rightarrow> bare_value P v | None \<Rightarrow> None)
      | _ \<Rightarrow> bare_value P raw)"

subsection \<open>Ranks\<close>

text \<open>
  The rule of the claim: \<^verbatim>\<open>#r NAME\<close> for a rank from 1 to 25, and otherwise the text for
  an unranked team, a space, and the name.
\<close>

definition rank_text :: "string \<Rightarrow> int \<Rightarrow> string \<Rightarrow> string" where
  "rank_text unranked r name =
     (if 1 \<le> r \<and> r \<le> 25 then ''#'' @ str_int r @ '' '' @ name else unranked @ '' '' @ name)"

text \<open>A competitor that carries a team name and an integer rank.\<close>

definition shown_as :: "json \<Rightarrow> string \<Rightarrow> int \<Rightarrow> bool" where
  "shown_as c name r \<longleftrightarrow>
     truthy c \<and>
     (\<exists>t k. get c ''team'' (JObj []) = Inr t \<and>
            get t ''displayName'' (JStr ''Unknown'') = Inr (JStr name) \<and>
            get c ''curatedRank'' (JObj []) = Inr k \<and>
            get k ''current'' (JInt 0) = Inr (JInt r))"

text \<open>The team id of a competitor, \<^verbatim>\<open>None\<close> when it has none.\<close>

definition team_of :: "json \<Rightarrow> json" where
  "team_of c =
     (case get c ''team'' (JObj []) of
        Inr t \<Rightarrow> (case get t ''id'' JNull of Inr i \<Rightarrow> i | Inl e \<Rightarrow> JNull)
      | Inl e \<Rightarrow> JNull)"

section \<open>Examples\<close>

text \<open>
  A platform for concrete runs: no text outside ASCII is converted, dates are left as
  they come.
\<close>

definition plain :: platform where
  "plain = \<lparr> unicode_lower = (\<lambda>s. s), unicode_strip = (\<lambda>s. s), unicode_title = (\<lambda>s. s),
     unicode_float = (\<lambda>s. Inl ValueError), str_other = (\<lambda>v. ''...''),
     short_date = (\<lambda>s. None), long_date = (\<lambda>s. None) \<rparr>"

text \<open>
  A competitor of a game, and an event with one competition, with the fields the program
  reads.
\<close>

definition entry ::
  "string \<Rightarrow> string \<Rightarrow> string \<Rightarrow> json \<Rightarrow> int \<Rightarrow> json" where
  "entry tid name side sc rank =
     JObj [(''homeAway'', JStr side),
           (''team'', JObj [(''id'', JStr tid), (''displayName'', JStr name)]),
           (''score'', sc),
           (''curatedRank'', JObj [(''current'', JInt rank)])]"

definition fixture :: "string \<Rightarrow> json list \<Rightarrow> json" where
  "fixture status competitors =
     JObj [(''competitions'',
            JArr [JObj [(''status'', JObj [(''type'', JObj [(''name'', JStr status)])]),
                        (''competitors'', JArr competitors)]])]"

text \<open>Navy beat Army 28 to 24 at home and plays at Air Force next.\<close>

definition played :: json where
  "played = fixture ''STATUS_FINAL''
     [entry ''2426'' ''Navy'' ''home'' (JInt 28) 0,
      entry ''349'' ''Army'' ''away'' (JInt 24) 0]"

definition upcoming :: json where
  "upcoming = fixture ''STATUS_SCHEDULED''
     [entry ''2426'' ''Navy'' ''away'' JNull 0,
      entry ''2005'' ''Air Force'' ''home'' JNull 0]"

definition schedule :: json where
  "schedule = JObj [(''events'', JArr [played, upcoming])]"

text \<open>A network on which the profile request times out and the schedule arrives.\<close>

definition profile_down :: network where
  "profile_down url = (if url = api @ ''2426'' then Inl ''timed out'' else Inr schedule)"

text \<open>Navy at home to Army, still to be played.\<close>

definition later :: json where
  "later = fixture ''STATUS_SCHEDULED''
     [entry ''2426'' ''Navy'' ''home'' JNull 0,
      entry ''349'' ''Army'' ''away'' JNull 0]"

text \<open>
  A schedule of a completed game, a postponed one, an event with no competition, and two
  games to come.
\<close>

definition busy :: json where
  "busy = JObj [(''events'',
     JArr [played, fixture ''STATUS_POSTPONED'' [], JObj [(''competitions'', JArr [])],
           upcoming, later])]"

text \<open>A game that ended 21 to 21.\<close>

definition tied :: json where
  "tied = fixture ''STATUS_FINAL''
     [entry ''2426'' ''Navy'' ''home'' (JInt 21) 0,
      entry ''349'' ''Army'' ''away'' (JInt 21) 0]"

text \<open>Navy, at home, scored a bare 21; Army's score came as \<^verbatim>\<open>{"value": "14.0"}\<close>.\<close>

definition won :: json where
  "won = fixture ''STATUS_FINAL''
     [entry ''2426'' ''Navy'' ''home'' (JInt 21) 0,
      entry ''349'' ''Army'' ''away'' (JObj [(''value'', JStr ''14.0'')]) 0]"

section \<open>Basic facts\<close>

lemma bind_Inr [simp]: "bind (Inr v) f = f v"
  by (simp add: bind_def)

lemma bind_Inl [simp]: "bind (Inl e) f = Inl e"
  by (simp add: bind_def)

lemma bind_eq_Inr: "bind r f = Inr y \<longleftrightarrow> (\<exists>v. r = Inr v \<and> f v = Inr y)"
  by (cases r) auto

lemma with_value_Inr [simp]: "with_value (Inr v) f = f v"
  by (simp add: with_value_def)

lemma with_value_Inl [simp]: "with_value (Inl e) f = ([], Some e)"
  by (simp add: with_value_def)

lemma and_then_printed [simp]: "and_then (printed ls) b = (ls @ fst b, snd b)"
  by (simp add: and_then_def printed_def)

lemma fst_and_then: "fst (and_then a b) = (if snd a = None then fst a @ fst b else fst a)"
  by (cases a) (auto simp: and_then_def split: option.splits)

lemma fst_with_value: "(\<And>v. fst (f v) = []) \<Longrightarrow> fst (with_value r f) = []"
  by (cases r) simp_all

lemma get_JObj [simp]:
  "get (JObj kvs) k d = Inr (case map_of kvs k of Some v \<Rightarrow> v | None \<Rightarrow> d)"
  by simp

lemma eq_JStr [simp]: "eq x (JStr s) \<longleftrightarrow> x = JStr s"
  by (cases x) (auto simp: eq.simps [of _ "JStr s"])

lemma strip_spaces:
  assumes "list_all is_space s"
  shows "strip P s = []"
proof -
  from assms have a: "list_all is_ascii s"
    by (induction s) (auto simp: is_space_def is_ascii_def Let_def)
  from assms have d: "dropWhile is_space s = []"
    by (induction s) auto
  show ?thesis by (simp add: strip_def strip_by_def a d)
qed

subsection \<open>Integers survive \<^verbatim>\<open>int(float(n))\<close> below \<open>2 ^ 53\<close>\<close>

lemma bit_length_bounds:
  "0 < n \<Longrightarrow> 2 ^ (bit_length n - 1) \<le> n \<and> n < 2 ^ bit_length n"
proof (induction n rule: bit_length.induct)
  case (1 n)
  show ?case
  proof (cases "n div 2 = 0")
    case True
    with "1.prems" have "n = 1" by presburger
    then show ?thesis
      by (simp add: bit_length.simps [of "Suc 0"] bit_length.simps [of 0])
  next
    case False
    let ?m = "n div 2"
    from False "1.prems" have ih: "2 ^ (bit_length ?m - 1) \<le> ?m \<and> ?m < 2 ^ bit_length ?m"
      using "1.IH" by simp
    from False have pos: "0 < bit_length ?m"
      by (simp add: bit_length.simps [of ?m])
    have bl: "bit_length n = Suc (bit_length ?m)"
      using "1.prems" by (simp add: bit_length.simps [of n])
    from pos have "(2::nat) ^ bit_length ?m = 2 * 2 ^ (bit_length ?m - 1)"
      by (cases "bit_length ?m") auto
    with ih have "2 ^ bit_length ?m \<le> 2 * ?m" by simp
    then have lo: "2 ^ bit_length ?m \<le> n" by presburger
    from ih have "Suc ?m \<le> 2 ^ bit_length ?m" by simp
    then have "2 * Suc ?m \<le> 2 * 2 ^ bit_length ?m" by simp
    then have hi: "n < 2 * 2 ^ bit_length ?m" by presburger
    from lo hi bl show ?thesis by simp
  qed
qed

lemma pow2_nat: "pow2 (int k) = 2 ^ k"
  by (simp add: pow2_def)

lemma round_half_even_int: "round_half_even (of_int m) = m"
  by (simp add: round_half_even_def Let_def)

lemma round_double_int:
  assumes "0 < n" and "n < 2 ^ 53"
  shows "round_double neg (of_int n) = Finite (if neg then - of_int n else of_int n)"
proof -
  let ?b = "bit_length (nat n)"
  from assms have b: "2 ^ (?b - 1) \<le> nat n" "nat n < 2 ^ ?b"
    using bit_length_bounds [of "nat n"] by auto
  from b(2) have bpos: "0 < ?b" using assms(1) by (cases ?b) auto
  have lt: "(2::nat) ^ (?b - 1) < 2 ^ 53"
  proof -
    from b(1) have "int (2 ^ (?b - 1)) \<le> n" using assms(1) by linarith
    with assms(2) have "int (2 ^ (?b - 1)) < 2 ^ 53" by linarith
    then show ?thesis by (metis of_nat_less_iff of_nat_numeral of_nat_power)
  qed
  have "?b - 1 < 53"
    by (rule power_less_imp_less_exp [of 2]) (use lt in simp_all)
  then have b53: "?b \<le> 53" by simp
  have one: "bit_length (nat 1) = 1"
    by (simp add: bit_length.simps [of "Suc 0"] bit_length.simps [of 0])
  have le: "pow2 (int ?b - 1) \<le> of_int n"
  proof -
    have "pow2 (int ?b - 1) = 2 ^ (?b - 1)"
      using bpos pow2_nat [of "?b - 1"] by (simp add: of_nat_diff)
    moreover have "(2::rat) ^ (?b - 1) \<le> of_int n"
    proof -
      from b(1) have "int (2 ^ (?b - 1)) \<le> n" using assms(1) by linarith
      then have "(of_int (int (2 ^ (?b - 1))) :: rat) \<le> of_int n"
        by (simp only: of_int_le_iff)
      then show ?thesis by simp
    qed
    ultimately show ?thesis by simp
  qed
  have il: "ilog2 (of_int n) = int ?b - 1"
    using le one by (simp add: ilog2_def Let_def)
  define k where "k = 53 - ?b"
  have u: "max (ilog2 (of_int n) - 52) (- 1074) = - int k"
    using b53 bpos by (simp add: il k_def)
  have p: "pow2 (- int k) = 1 / 2 ^ k"
    by (simp add: pow2_def)
  have q: "(of_int n :: rat) / pow2 (- int k) = of_int (n * 2 ^ k)"
    by (simp add: p)
  have v: "of_int (round_half_even (of_int n / pow2 (- int k))) * pow2 (- int k) = (of_int n :: rat)"
    by (simp only: q round_half_even_int) (simp add: p)
  have small: "\<not> (2 ^ 1024 \<le> (of_int n :: rat))"
  proof -
    have "(of_int n :: rat) < of_int (2 ^ 53)" using assms(2) by (simp only: of_int_less_iff)
    also have "\<dots> \<le> 2 ^ 1024" by simp
    finally show ?thesis by simp
  qed
  from assms(1) have nz: "(of_int n :: rat) \<noteq> 0" by simp
  show ?thesis
    unfolding round_double_def Let_def u v using small nz by simp
qed

lemma int_float_int:
  assumes "\<bar>n\<bar> < 2 ^ 53"
  shows "int_float P (JInt n) = Inr n"
proof (cases "n = 0")
  case True
  then show ?thesis by (simp add: int_float_def round_double_def)
next
  case False
  with assms have "0 < \<bar>n\<bar>" "\<bar>n\<bar> < 2 ^ 53" by auto
  then have "round_double (n < 0) (of_int \<bar>n\<bar>) =
      Finite (if n < 0 then - of_int \<bar>n\<bar> else of_int \<bar>n\<bar>)"
    by (rule round_double_int)
  then show ?thesis
    by (auto simp: int_float_def)
qed

lemma int_of_float_value: "float_value f = Some x \<Longrightarrow> int_of_float f = Inr x"
  by (cases f) (auto simp: truncation_def ceiling_def)

lemma int_float_bare: "bare_value P v = Some x \<Longrightarrow> int_float P v = Inr x"
proof (cases v)
  case (JInt n)
  moreover assume "bare_value P v = Some x"
  ultimately show ?thesis by (auto simp: int_float_int split: if_splits)
next
  case (JFloat f)
  moreover assume "bare_value P v = Some x"
  ultimately show ?thesis by (simp add: int_float_def int_of_float_value)
next
  case (JStr s)
  moreover assume "bare_value P v = Some x"
  ultimately show ?thesis
    by (auto simp: int_float_def int_of_float_value split: sum.splits)
qed simp_all

lemma int_float_coerced: "coerced P raw = Some x \<Longrightarrow> int_float P (unwrap_score raw) = Inr x"
  by (cases raw) (auto simp: coerced_def unwrap_score_def int_float_bare split: option.splits)

lemma float_14: "float_of_str P ''14.0'' = Inr (Finite 14)"
proof -
  have "list_all is_ascii ''14.0''" by (simp add: is_ascii_def)
  moreover have "float_of_ascii ''14.0'' = Inr (Finite 14)" by code_simp
  ultimately show ?thesis by (simp add: float_of_str_def)
qed

subsection \<open>Ranks and scores of the examples\<close>

lemma ranked_int: "ranked (JInt r) = Inr (1 \<le> r \<and> r \<le> 25)"
  by (auto simp: ranked_def gt_int_def le_int_def)

lemma with_rank_int:
  "with_rank P u (JInt r) (JStr name) =
     Inr (if 1 \<le> r \<and> r \<le> 25 then ''#'' @ str_int r @ '' '' @ name else u @ '' '' @ name)"
  by (simp add: with_rank_def ranked_int fstr_def)

lemma with_rank_text: "with_rank P u (JInt r) (JStr name) = Inr (rank_text u r name)"
  by (simp add: with_rank_int rank_text_def)

lemma get_id:
  assumes "get c ''team'' (JObj []) = Inr t" and "get t ''displayName'' d = Inr x"
  shows "get t ''id'' JNull = Inr (team_of c)"
proof -
  from assms(2) obtain tk where "t = JObj tk" by (cases t) auto
  with assms(1) show ?thesis by (simp add: team_of_def)
qed

lemma entry_scores:
  assumes "\<bar>a\<bar> < 2 ^ 53" and "\<bar>b\<bar> < 2 ^ 53"
  shows "scores P (entry i n s (JInt a) r) (entry i' n' s' (JInt b) r') = Inr (a, b)"
  using assms by (simp add: scores_def entry_def unwrap_score_def int_float_int)

lemma shown_as_entry: "shown_as (entry i n s sc r) n r"
  by (simp add: shown_as_def entry_def)

lemma team_of_entry: "team_of (entry i n s sc r) = JStr i"
  by (simp add: team_of_def entry_def)

lemma season_game_fixture:
  assumes "\<bar>a\<bar> < 2 ^ 53" and "\<bar>b\<bar> < 2 ^ 53" and "i \<noteq> i'"
  shows "season_game P (JObj [(''id'', JStr i)])
      (fixture ''STATUS_FINAL'' [entry i n s (JInt a) r, entry i' n' s' (JInt b) r']) =
     Inr (Some \<lparr> date = ''Unknown'', result = win_loss a b,
                 score = str_int a @ ''-'' @ str_int b,
                 opponent = (if 1 \<le> r' \<and> r' \<le> 25 then ''#'' @ str_int r' @ '' '' @ n'
                             else ''(UR) '' @ n'),
                 location = (if s = ''home'' then ''vs'' else ''@'') \<rparr>)"
proof -
  let ?us = "entry i n s (JInt a) r" and ?them = "entry i' n' s' (JInt b) r'"
  let ?ev = "fixture ''STATUS_FINAL'' [?us, ?them]"
  have sc: "scores P ?us ?them = Inr (a, b)"
    using assms(1,2) by (rule entry_scores)
  have g: "completed_game P ?ev ?us ?them =
     Inr \<lparr> date = ''Unknown'', result = win_loss a b, score = str_int a @ ''-'' @ str_int b,
           opponent = (if 1 \<le> r' \<and> r' \<le> 25 then ''#'' @ str_int r' @ '' '' @ n'
                       else ''(UR) '' @ n'),
           location = (if s = ''home'' then ''vs'' else ''@'') \<rparr>"
    unfolding completed_game_def sc
    by (simp add: entry_def fixture_def with_rank_int game_date_def)
  have p: "pick_sides (JStr i) [?us, ?them] (JNull, JNull) = Inr (?us, ?them)"
    using assms(3) by (simp add: entry_def)
  have t: "truthy ?us" "truthy ?them" by (simp_all add: entry_def)
  show ?thesis
    by (simp add: season_game_def first_competition_def status_type_def
        fixture_def p t g [unfolded fixture_def] del: pick_sides.simps)
qed

lemma season_game_not_final:
  "st \<noteq> ''STATUS_FINAL'' \<Longrightarrow> season_game P team (fixture st cs) = Inr None"
  by (simp add: season_game_def first_competition_def status_type_def fixture_def)

section \<open>The claims\<close>

subsection \<open>A failed profile request\<close>

text \<open>
  C1, as the code has it. When the profile request fails, \<^verbatim>\<open>get_team_data\<close> returns
  \<^verbatim>\<open>None\<close>; the schedule is still requested, but \<^verbatim>\<open>display_team_info\<close> prints
  \<^verbatim>\<open>Could not retrieve team information\<close> and returns at once. Whatever the schedule
  request returned, nothing of it is printed, and the run ends without an exception.
\<close>

theorem profile_failure_ends_display:
  assumes "read_team_name P args stdin = (asked, Inr team_name)"
    and "team_name \<noteq> []"
    and "get_team_id ids P team_name = Some team_id"
    and "team_id \<noteq> []"
    and "net (api @ team_id) = Inl e"
  shows "main ids P net args stdin =
    (Print (nl # sym_ball @ '' College Football Team Checker '' @ sym_ball @ [nl]) # asked @
     [Print (nl # ''Searching for '' @ [quote] @ team_name @ [quote] @ ''...''),
      Print (sym_check @ '' Found team (ID: '' @ team_id @ '')''),
      Print ''Fetching team information...'',
      Get (api @ team_id),
      Print (''Error fetching team data: '' @ e)] @
     fst (get_team_schedule net team_id) @
     [Print (sym_cross @ '' Could not retrieve team information'')],
     None)"
  using assms
  by (simp add: main_def get_team_data_def display_team_info_def printed_def
      split: prod.splits)

theorem profile_failure_ends_display_witness:
  "main TEAM_IDS plain profile_down [''Navy''] None =
    ([Print (nl # sym_ball @ '' College Football Team Checker '' @ sym_ball @ [nl]),
      Print (nl # ''Searching for '' @ [quote] @ ''Navy'' @ [quote] @ ''...''),
      Print (sym_check @ '' Found team (ID: 2426)''),
      Print ''Fetching team information...'',
      Get (api @ ''2426''),
      Print ''Error fetching team data: timed out'',
      Get (api @ ''2426/schedule''),
      Print (sym_cross @ '' Could not retrieve team information'')],
     None)"
proof -
  have r: "read_team_name plain [''Navy''] None = ([], Inr ''Navy'')"
    by (simp add: read_team_name_def join_with_def)
  have i: "get_team_id TEAM_IDS plain ''Navy'' = Some ''2426''"
    by code_simp
  have n: "profile_down (api @ ''2426'') = Inl ''timed out''"
    by (simp add: profile_down_def)
  have s: "fst (get_team_schedule profile_down ''2426'') = [Get (api @ ''2426/schedule'')]"
    by (simp add: get_team_schedule_def profile_down_def api_def)
  from profile_failure_ends_display [where P = plain and args = "[''Navy'']" and stdin = None
      and asked = "[]" and team_name = "''Navy''" and ids = TEAM_IDS and team_id = "''2426''"
      and net = profile_down and e = "''timed out''"] r i n s
  show ?thesis by simp
qed

text \<open>
  C1, as the claim states it, fails: on a network where the profile request times out and
  the schedule arrives with a completed and an upcoming game, \<^verbatim>\<open>display_team_info\<close> prints
  the failure message and nothing else: no season results, no next game.
\<close>

theorem profile_failure_counterexample:
  "snd (get_team_data profile_down ''2426'') = JNull \<and>
   snd (get_team_schedule profile_down ''2426'') = schedule \<and>
   display_team_info plain (snd (get_team_data profile_down ''2426''))
     (snd (get_team_schedule profile_down ''2426'')) =
     ([sym_cross @ '' Could not retrieve team information''], None)"
  by (simp add: get_team_data_def get_team_schedule_def profile_down_def api_def
      display_team_info_def printed_def)

subsection \<open>The next game\<close>

lemma first_open_find:
  "list_all readable evs \<Longrightarrow> first_open evs = Inr (List.find is_open evs)"
proof (induction evs)
  case Nil
  show ?case by simp
next
  case (Cons ev evs)
  then have ih: "first_open evs = Inr (List.find is_open evs)" by simp
  from Cons.prems obtain st where st: "event_status ev = Inr st"
    by (auto simp: readable_def split: sum.splits)
  show ?case
  proof (cases "first_competition ev")
    case (Inl e)
    with st show ?thesis by (simp add: event_status_def)
  next
    case (Inr c)
    show ?thesis
    proof (cases c)
      case None
      with Inr have "\<not> is_open ev" by (simp add: is_open_def event_status_def)
      with Inr None ih show ?thesis by simp
    next
      case (Some competition)
      with Inr st obtain s where s: "status_type competition = Inr s"
        by (cases "status_type competition") (auto simp: event_status_def)
      with Inr Some have "is_open ev \<longleftrightarrow>
          s \<noteq> JStr ''STATUS_FINAL'' \<and> s \<noteq> JStr ''STATUS_POSTPONED''"
        by (simp add: is_open_def event_status_def)
      with Inr Some s ih show ?thesis by simp
    qed
  qed
qed

text \<open>
  C2. On a schedule whose events can all be read, \<^verbatim>\<open>find_next_game\<close> returns the first
  event, in the order of the document, whose status is neither final nor postponed, and
  \<^verbatim>\<open>None\<close> when there is none; so it returns \<^verbatim>\<open>None\<close> when every event is final or
  postponed, and what it returns is an open event of the schedule with no open event
  before it.
\<close>

theorem find_next_game_first_open:
  assumes "get schedule_data ''events'' (JArr []) = Inr (JArr evs)"
    and "truthy schedule_data"
    and "list_all readable evs"
  shows "find_next_game schedule_data = Inr (List.find is_open evs) \<and>
    ((\<forall>ev \<in> set evs. \<not> is_open ev) \<longrightarrow> find_next_game schedule_data = Inr None) \<and>
    (\<forall>ev. find_next_game schedule_data = Inr (Some ev) \<longrightarrow>
       (\<exists>i < length evs. evs ! i = ev \<and> is_open ev \<and> (\<forall>j < i. \<not> is_open (evs ! j))))"
proof -
  have f: "find_next_game schedule_data = Inr (List.find is_open evs)"
    using assms by (simp add: find_next_game_def first_open_find)
  show ?thesis
    unfolding f by (auto simp: find_None_iff find_Some_iff)
qed

theorem find_next_game_first_open_witness:
  "find_next_game busy = Inr (Some upcoming) \<and>
   find_next_game (JObj [(''events'', JArr [played, fixture ''STATUS_POSTPONED'' []])]) = Inr None"
proof -
  let ?evs = "[played, fixture ''STATUS_POSTPONED'' [], JObj [(''competitions'', JArr [])],
           upcoming, later]"
  have s: "event_status played = Inr (Some (JStr ''STATUS_FINAL''))"
    "event_status (fixture ''STATUS_POSTPONED'' []) = Inr (Some (JStr ''STATUS_POSTPONED''))"
    "event_status (JObj [(''competitions'', JArr [])]) = Inr None"
    "event_status upcoming = Inr (Some (JStr ''STATUS_SCHEDULED''))"
    "event_status later = Inr (Some (JStr ''STATUS_SCHEDULED''))"
    by (simp_all add: event_status_def first_competition_def status_type_def played_def
        upcoming_def later_def fixture_def)
  have a: "get busy ''events'' (JArr []) = Inr (JArr ?evs)" "truthy busy"
    by (simp_all add: busy_def)
  have r: "list_all readable ?evs" by (simp add: readable_def s)
  have "find_next_game busy = Inr (List.find is_open ?evs)"
    using find_next_game_first_open [OF a r] by blast
  then have one: "find_next_game busy = Inr (Some upcoming)"
    by (simp add: is_open_def s)
  let ?done = "[played, fixture ''STATUS_POSTPONED'' []]"
  have b: "get (JObj [(''events'', JArr ?done)]) ''events'' (JArr []) = Inr (JArr ?done)"
    "truthy (JObj [(''events'', JArr ?done)])"
    by simp_all
  have r': "list_all readable ?done" by (simp add: readable_def s)
  have "\<forall>ev \<in> set ?done. \<not> is_open ev" by (simp add: is_open_def s)
  with find_next_game_first_open [OF b r']
  have "find_next_game (JObj [(''events'', JArr ?done)]) = Inr None" by blast
  with one show ?thesis by simp
qed

subsection \<open>Season results\<close>

lemma season_game_final:
  assumes "season_game P team ev = Inr (Some g)"
  shows "is_final ev"
proof -
  from assms obtain c where c: "first_competition ev = Inr c"
    by (auto simp: season_game_def bind_eq_Inr)
  with assms obtain competition where s: "c = Some competition"
    by (cases c) (auto simp: season_game_def)
  with assms c obtain st where st: "status_type competition = Inr st"
    by (auto simp: season_game_def bind_eq_Inr)
  with assms c s have "st = JStr ''STATUS_FINAL''"
    by (auto simp: season_game_def split: if_splits)
  with c s st show ?thesis by (simp add: is_final_def event_status_def)
qed

lemma season_game_other:
  assumes "\<not> is_final ev" and "season_game P team ev = Inr x"
  shows "x = None"
  using assms season_game_final [of P team ev] by (cases x) auto

lemma completed_games_from:
  "completed_games P team evs = Inr gs \<Longrightarrow>
     \<forall>g \<in> set gs. \<exists>ev \<in> set evs. season_game P team ev = Inr (Some g) \<and> is_final ev"
proof (induction evs arbitrary: gs)
  case Nil
  then show ?case by simp
next
  case (Cons ev evs)
  from Cons.prems obtain x rest where x: "season_game P team ev = Inr x"
    and rest: "completed_games P team evs = Inr rest"
    and gs: "gs = (case x of None \<Rightarrow> rest | Some g \<Rightarrow> g # rest)"
    by (auto simp: bind_eq_Inr)
  from Cons.IH [OF rest]
  have ih: "\<forall>g \<in> set rest. \<exists>e \<in> set evs. season_game P team e = Inr (Some g) \<and> is_final e" .
  show ?case
  proof (cases x)
    case None
    with gs ih show ?thesis by auto
  next
    case (Some g)
    with x have "is_final ev" by (auto dest: season_game_final)
    with Some x gs ih show ?thesis by auto
  qed
qed

lemma completed_games_filter:
  "completed_games P team evs = Inr gs \<Longrightarrow>
     completed_games P team (filter is_final evs) = Inr gs"
proof (induction evs arbitrary: gs)
  case Nil
  then show ?case by simp
next
  case (Cons ev evs)
  from Cons.prems obtain x rest where x: "season_game P team ev = Inr x"
    and rest: "completed_games P team evs = Inr rest"
    and gs: "gs = (case x of None \<Rightarrow> rest | Some g \<Rightarrow> g # rest)"
    by (auto simp: bind_eq_Inr)
  note ih = Cons.IH [OF rest]
  show ?case
  proof (cases "is_final ev")
    case True
    with x gs ih show ?thesis by simp
  next
    case False
    from False x have "x = None" by (rule season_game_other)
    with False gs ih show ?thesis by simp
  qed
qed

text \<open>
  C3. Every game of the season results comes from an event of the schedule whose status
  is final, and the events of any other status add nothing: the games are the same when
  those events are left out of the schedule. The section prints one line for each game.
\<close>

theorem season_results_final_only:
  assumes "get schedule_data ''events'' (JArr []) = Inr (JArr evs)"
    and "truthy schedule_data"
    and "completed_games P team evs = Inr gs"
  shows "(\<forall>g \<in> set gs. \<exists>ev \<in> set evs. season_game P team ev = Inr (Some g) \<and> is_final ev) \<and>
    completed_games P team (filter is_final evs) = Inr gs \<and>
    season_section P team schedule_data =
      (if gs \<noteq> [] then
         printed ((nl # sym_calendar @ '' SEASON RESULTS'') # replicate 70 CHR ''-'' #
                  map game_line gs)
       else printed [nl # sym_calendar @ '' No games completed yet this season''])"
  using assms completed_games_from [OF assms(3)] completed_games_filter [OF assms(3)]
  by (simp add: season_section_def)

theorem season_results_final_only_witness:
  "completed_games plain (JObj [(''id'', JStr ''2426'')]) [played, upcoming] =
     Inr [\<lparr> date = ''Unknown'', result = ''W'', score = ''28-24'',
            opponent = ''(UR) Army'', location = ''vs'' \<rparr>] \<and>
   completed_games plain (JObj [(''id'', JStr ''2426'')]) (filter is_final [played, upcoming]) =
     Inr [\<lparr> date = ''Unknown'', result = ''W'', score = ''28-24'',
            opponent = ''(UR) Army'', location = ''vs'' \<rparr>] \<and>
   season_section plain (JObj [(''id'', JStr ''2426'')]) schedule =
     printed [nl # sym_calendar @ '' SEASON RESULTS'', replicate 70 CHR ''-'',
              ''   Unknown  W    28-24  vs (UR) Army'']"
proof -
  let ?team = "JObj [(''id'', JStr ''2426'')]"
  let ?g = "\<lparr> date = ''Unknown'', result = ''W'', score = ''28-24'',
            opponent = ''(UR) Army'', location = ''vs'' \<rparr>"
  have n: "str_int 28 = ''28''" "str_int 24 = ''24''" by code_simp+
  have p: "season_game plain ?team played = Inr (Some ?g)"
    unfolding played_def by (subst season_game_fixture) (simp_all add: n win_loss_def)
  have u: "season_game plain ?team upcoming = Inr None"
    unfolding upcoming_def by (rule season_game_not_final) simp
  have c: "completed_games plain ?team [played, upcoming] = Inr [?g]"
    by (simp add: p u)
  have a: "get schedule ''events'' (JArr []) = Inr (JArr [played, upcoming])" "truthy schedule"
    by (simp_all add: schedule_def)
  have l: "game_line ?g = ''   Unknown  W    28-24  vs (UR) Army''"
    by code_simp
  from season_results_final_only [OF a c] c show ?thesis
    by (simp add: l)
qed

subsection \<open>Scores and results\<close>

text \<open>
  C4. The score of either side of a completed game, bare or wrapped in an object under
  \<^verbatim>\<open>value\<close>, becomes the integer that float-then-int truncation gives, and these two
  integers are the score and decide the result of the game. A bare \<^verbatim>\<open>21\<close> is 21 and
  \<^verbatim>\<open>{"value": "14.0"}\<close> is 14.
\<close>

theorem score_coercion:
  assumes "get our_team_info ''score'' (JInt 0) = Inr a"
    and "get opponent_info ''score'' (JInt 0) = Inr b"
    and "coerced P a = Some x"
    and "coerced P b = Some y"
  shows "scores P our_team_info opponent_info = Inr (x, y) \<and>
    (\<forall>g. completed_game P ev our_team_info opponent_info = Inr g \<longrightarrow>
       score g = str_int x @ ''-'' @ str_int y \<and> result g = (if x > y then ''W'' else ''L'')) \<and>
    coerced P (JInt 21) = Some 21 \<and>
    coerced P (JObj [(''value'', JStr ''14.0'')]) = Some 14 \<and>
    coerced P (JFloat (Finite (7 / 2))) = Some 3"
proof -
  have s: "scores P our_team_info opponent_info = Inr (x, y)"
    using assms by (simp add: scores_def int_float_coerced)
  have g: "score g = str_int x @ ''-'' @ str_int y \<and> result g = (if x > y then ''W'' else ''L'')"
    if "completed_game P ev our_team_info opponent_info = Inr g" for g
    using that unfolding completed_game_def s
    by (auto simp: bind_eq_Inr win_loss_def)
  have "coerced P (JObj [(''value'', JStr ''14.0'')]) = Some 14"
    by (simp add: coerced_def float_14 truncation_def)
  moreover have "\<lfloor>7 / 2 :: rat\<rfloor> = 3"
    by (rule floor_unique) simp_all
  then have "coerced P (JFloat (Finite (7 / 2))) = Some 3"
    by (simp add: coerced_def truncation_def)
  ultimately show ?thesis using s g by (simp add: coerced_def)
qed

theorem score_coercion_witness:
  "season_game plain (JObj [(''id'', JStr ''2426'')]) won =
     Inr (Some \<lparr> date = ''Unknown'', result = ''W'', score = ''21-14'',
                 opponent = ''(UR) Army'', location = ''vs'' \<rparr>) \<and>
   scores plain (entry ''2426'' ''Navy'' ''home'' (JInt 21) 0)
     (entry ''349'' ''Army'' ''away'' (JObj [(''value'', JStr ''14.0'')]) 0) = Inr (21, 14)"
proof -
  let ?us = "entry ''2426'' ''Navy'' ''home'' (JInt 21) 0"
  let ?them = "entry ''349'' ''Army'' ''away'' (JObj [(''value'', JStr ''14.0'')]) 0"
  have a: "get ?us ''score'' (JInt 0) = Inr (JInt 21)"
    and b: "get ?them ''score'' (JInt 0) = Inr (JObj [(''value'', JStr ''14.0'')])"
    by (simp_all add: entry_def)
  have c: "coerced plain (JInt 21) = Some 21"
    and d: "coerced plain (JObj [(''value'', JStr ''14.0'')]) = Some 14"
    by (simp_all add: coerced_def float_14 truncation_def)
  note sc = score_coercion [OF a b c d, of won]
  then have s: "scores plain ?us ?them = Inr (21, 14)" by simp
  have n: "str_int 21 = ''21''" "str_int 14 = ''14''" by code_simp+
  have g: "completed_game plain won ?us ?them =
     Inr \<lparr> date = ''Unknown'', result = ''W'', score = ''21-14'',
           opponent = ''(UR) Army'', location = ''vs'' \<rparr>"
    unfolding completed_game_def s
    by (simp add: entry_def won_def fixture_def with_rank_int game_date_def win_loss_def n)
  have p: "pick_sides (JStr ''2426'') [?us, ?them] (JNull, JNull) = Inr (?us, ?them)"
    by (simp add: entry_def)
  have t: "truthy ?us" "truthy ?them" by (simp_all add: entry_def)
  have "season_game plain (JObj [(''id'', JStr ''2426'')]) won = Inr (Some
     \<lparr> date = ''Unknown'', result = ''W'', score = ''21-14'',
       opponent = ''(UR) Army'', location = ''vs'' \<rparr>)"
    by (simp add: season_game_def first_competition_def status_type_def won_def
        fixture_def p t g [unfolded won_def fixture_def] del: pick_sides.simps)
  with s show ?thesis by simp
qed

text \<open>
  C5. The result of a completed game is \<^verbatim>\<open>W\<close> exactly when our score is greater than the
  opponent's and \<^verbatim>\<open>L\<close> otherwise; with equal scores it is \<^verbatim>\<open>L\<close>.
\<close>

theorem win_loss_strict:
  assumes "completed_game P ev our_team_info opponent_info = Inr g"
  shows "\<exists>a b. scores P our_team_info opponent_info = Inr (a, b) \<and>
           (result g = ''W'' \<longleftrightarrow> a > b) \<and>
           (result g = ''L'' \<longleftrightarrow> \<not> a > b) \<and>
           (a = b \<longrightarrow> result g = ''L'')"
proof -
  from assms obtain sc where s: "scores P our_team_info opponent_info = Inr sc"
    and r: "result g = win_loss (fst sc) (snd sc)"
    by (auto simp: completed_game_def bind_eq_Inr)
  show ?thesis
    by (rule exI [of _ "fst sc"], rule exI [of _ "snd sc"]) (simp add: s r win_loss_def)
qed

theorem win_loss_strict_witness:
  "completed_game plain tied (entry ''2426'' ''Navy'' ''home'' (JInt 21) 0)
      (entry ''349'' ''Army'' ''away'' (JInt 21) 0) =
     Inr \<lparr> date = ''Unknown'', result = ''L'', score = str_int 21 @ ''-'' @ str_int 21,
           opponent = ''(UR) Army'', location = ''vs'' \<rparr> \<and>
   scores plain (entry ''2426'' ''Navy'' ''home'' (JInt 21) 0)
      (entry ''349'' ''Army'' ''away'' (JInt 21) 0) = Inr (21, 21)"
proof -
  have s: "scores plain (entry ''2426'' ''Navy'' ''home'' (JInt 21) 0)
      (entry ''349'' ''Army'' ''away'' (JInt 21) 0) = Inr (21, 21)"
    by (rule entry_scores) simp_all
  have g: "completed_game plain tied (entry ''2426'' ''Navy'' ''home'' (JInt 21) 0)
      (entry ''349'' ''Army'' ''away'' (JInt 21) 0) =
     Inr \<lparr> date = ''Unknown'', result = win_loss 21 21, score = str_int 21 @ ''-'' @ str_int 21,
           opponent = ''(UR) Army'', location = ''vs'' \<rparr>"
    unfolding completed_game_def s
    by (simp add: entry_def tied_def fixture_def with_rank_int game_date_def)
  from win_loss_strict [OF g] s show ?thesis
    by (auto simp: g)
qed

subsection \<open>Rank formatting\<close>

text \<open>
  C6. An integer rank \<open>r\<close> is shown as \<^verbatim>\<open>#r NAME\<close> when \<open>1 \<le> r \<le> 25\<close> and as
  \<^verbatim>\<open>(UR) NAME\<close> otherwise in the header, for the opponent of a completed game and for the
  home team of the next game; the away team of the next game is shown as \<^verbatim>\<open>UR NAME\<close> when
  it is unranked. Ranks 0 and 30 are unranked, rank 12 is \<^verbatim>\<open>#12\<close>.
\<close>

theorem rank_formatting:
  assumes "get team ''displayName'' (JStr ''Unknown Team'') = Inr (JStr name)"
    and "get team ''rank'' (JInt 0) = Inr (JInt r)"
    and "shown_as home_team hn hr"
    and "shown_as away_team an ar"
  shows "header P team =
      printed [nl # replicate 70 CHR ''='', ''  '' @ rank_text ''(UR)'' r name,
               replicate 70 CHR ''=''] \<and>
    (\<forall>ev us g. completed_game P ev us away_team = Inr g \<longrightarrow>
       opponent g = rank_text ''(UR)'' ar an) \<and>
    (\<forall>ev us g. completed_game P ev us home_team = Inr g \<longrightarrow>
       opponent g = rank_text ''(UR)'' hr hn) \<and>
    matchup P our_team_id home_team away_team =
      (if eq (team_of home_team) our_team_id
       then printed [''   Opponent: '' @ rank_text ''UR'' ar an, ''   Location: Home'']
       else printed [''   Opponent: '' @ rank_text ''(UR)'' hr hn,
                     ''   Location: Away @ '' @ hn]) \<and>
    rank_text ''(UR)'' 0 ''Team'' = ''(UR) Team'' \<and>
    rank_text ''(UR)'' 30 ''Team'' = ''(UR) Team'' \<and>
    rank_text ''(UR)'' 12 ''Team'' = ''#'' @ str_int 12 @ '' Team'' \<and>
    rank_text ''UR'' 0 ''Team'' = ''UR Team''"
proof -
  have h: "header P team =
      printed [nl # replicate 70 CHR ''='', ''  '' @ rank_text ''(UR)'' r name,
               replicate 70 CHR ''='']"
    using assms(1,2) by (simp add: header_def with_rank_text)
  have opp: "opponent g = rank_text ''(UR)'' cr cn"
    if "shown_as c cn cr" and "completed_game P ev us c = Inr g" for c cn cr ev us g
  proof -
    from that(1) obtain t k where "get c ''team'' (JObj []) = Inr t"
      "get t ''displayName'' (JStr ''Unknown'') = Inr (JStr cn)"
      "get c ''curatedRank'' (JObj []) = Inr k"
      "get k ''current'' (JInt 0) = Inr (JInt cr)"
      by (auto simp: shown_as_def)
    with that(2) show ?thesis
      by (auto simp: completed_game_def bind_eq_Inr with_rank_text)
  qed
  from assms(3) obtain ht hk where ht: "get home_team ''team'' (JObj []) = Inr ht"
    "get ht ''displayName'' (JStr ''Unknown'') = Inr (JStr hn)"
    "get home_team ''curatedRank'' (JObj []) = Inr hk"
    "get hk ''current'' (JInt 0) = Inr (JInt hr)" and th: "truthy home_team"
    by (auto simp: shown_as_def)
  from assms(4) obtain awt ak where awt: "get away_team ''team'' (JObj []) = Inr awt"
    "get awt ''displayName'' (JStr ''Unknown'') = Inr (JStr an)"
    "get away_team ''curatedRank'' (JObj []) = Inr ak"
    "get ak ''current'' (JInt 0) = Inr (JInt ar)" and ta: "truthy away_team"
    by (auto simp: shown_as_def)
  have m: "matchup P our_team_id home_team away_team =
      (if eq (team_of home_team) our_team_id
       then printed [''   Opponent: '' @ rank_text ''UR'' ar an, ''   Location: Home'']
       else printed [''   Opponent: '' @ rank_text ''(UR)'' hr hn,
                     ''   Location: Away @ '' @ hn])"
    unfolding matchup_def
    by (simp add: ht awt th ta with_rank_text get_id [OF ht(1,2)] fstr_def)
  show ?thesis
    using h m opp [OF assms(4)] opp [OF assms(3)] by (simp add: rank_text_def)
qed

theorem rank_formatting_witness:
  "header plain (JObj [(''displayName'', JStr ''Navy''), (''rank'', JInt 12)]) =
     printed [nl # replicate 70 CHR ''='', ''  #12 Navy'', replicate 70 CHR ''=''] \<and>
   matchup plain (JStr ''2005'') (entry ''2005'' ''Air Force'' ''home'' JNull 0)
       (entry ''2426'' ''Navy'' ''away'' JNull 30) =
     printed [''   Opponent: UR Navy'', ''   Location: Home''] \<and>
   matchup plain (JStr ''2426'') (entry ''2005'' ''Air Force'' ''home'' JNull 0)
       (entry ''2426'' ''Navy'' ''away'' JNull 30) =
     printed [''   Opponent: (UR) Air Force'', ''   Location: Away @ Air Force'']"
proof -
  let ?team = "JObj [(''displayName'', JStr ''Navy''), (''rank'', JInt 12)]"
  let ?home = "entry ''2005'' ''Air Force'' ''home'' JNull 0"
  let ?away = "entry ''2426'' ''Navy'' ''away'' JNull 30"
  have a: "get ?team ''displayName'' (JStr ''Unknown Team'') = Inr (JStr ''Navy'')"
    and b: "get ?team ''rank'' (JInt 0) = Inr (JInt 12)"
    by simp_all
  have n: "str_int 12 = ''12''" by code_simp
  note h = shown_as_entry [of "''2005''" "''Air Force''" "''home''" JNull 0]
  note w = shown_as_entry [of "''2426''" "''Navy''" "''away''" JNull 30]
  note r = rank_formatting [OF a b h w, where P = plain]
  from r [where our_team_id = "JStr ''2005''"]
  have one: "header plain ?team =
     printed [nl # replicate 70 CHR ''='', ''  #12 Navy'', replicate 70 CHR ''='']"
    and two: "matchup plain (JStr ''2005'') ?home ?away =
     printed [''   Opponent: UR Navy'', ''   Location: Home'']"
    by (simp_all add: rank_text_def n team_of_entry)
  from r [where our_team_id = "JStr ''2426''"]
  have three: "matchup plain (JStr ''2426'') ?home ?away =
     printed [''   Opponent: (UR) Air Force'', ''   Location: Away @ Air Force'']"
    by (simp add: rank_text_def team_of_entry)
  from one two three show ?thesis by simp
qed

subsection \<open>The team table\<close>

lemma to_lower_ascii: "is_ascii (to_lower c) \<longleftrightarrow> is_ascii c"
  by (auto simp: to_lower_def is_upper_def is_ascii_def)

lemma table_distinct: "distinct (map fst TEAM_IDS)"
  unfolding TEAM_IDS_def by simp

lemma table_ascii: "list_all (\<lambda>kv. list_all is_ascii (fst kv)) TEAM_IDS"
  unfolding TEAM_IDS_def by (simp add: is_ascii_def)

lemma table_length: "length TEAM_IDS = 62"
  unfolding TEAM_IDS_def by simp

text \<open>
  C7. A name that differs from a name of the table only in the case of its letters
  resolves to the identifier the table gives that name, so \<^verbatim>\<open>Navy\<close> and \<^verbatim>\<open>navy\<close> both
  resolve to \<^verbatim>\<open>2426\<close>; the table has 62 names.
\<close>

theorem resolve_case_insensitive:
  assumes "(k, v) \<in> set TEAM_IDS" and "map to_lower s = k"
  shows "get_team_id TEAM_IDS P s = Some v \<and>
    get_team_id TEAM_IDS P ''Navy'' = Some ''2426'' \<and>
    get_team_id TEAM_IDS P ''navy'' = Some ''2426'' \<and>
    60 \<le> length TEAM_IDS"
proof -
  have known: "get_team_id TEAM_IDS P t = Some w"
    if "(k', w) \<in> set TEAM_IDS" and "map to_lower t = k'" for t k' w
  proof -
    from that(1) table_ascii have "list_all is_ascii k'"
      by (auto simp: list_all_iff)
    with that(2) have "list_all is_ascii t"
      by (auto simp: list_all_iff to_lower_ascii)
    then have "lower P t = k'" using that(2) by (simp add: lower_def)
    moreover from that(1) have "map_of TEAM_IDS k' = Some w"
      using table_distinct by simp
    ultimately show ?thesis by (simp add: get_team_id_def)
  qed
  have navy: "(''navy'', ''2426'') \<in> set TEAM_IDS"
    unfolding TEAM_IDS_def by simp
  have "map to_lower ''Navy'' = ''navy''" "map to_lower ''navy'' = ''navy''"
    by code_simp+
  with known [OF navy] have "get_team_id TEAM_IDS P ''Navy'' = Some ''2426''"
    "get_team_id TEAM_IDS P ''navy'' = Some ''2426''" by simp_all
  with known [OF assms] show ?thesis by (simp add: table_length)
qed

theorem resolve_case_insensitive_witness:
  "(''ohio state'', ''194'') \<in> set TEAM_IDS \<and>
   map to_lower ''Ohio STATE'' = ''ohio state'' \<and>
   get_team_id TEAM_IDS plain ''Ohio STATE'' = Some ''194''"
proof -
  have a: "(''ohio state'', ''194'') \<in> set TEAM_IDS"
    unfolding TEAM_IDS_def by simp
  have b: "map to_lower ''Ohio STATE'' = ''ohio state''" by code_simp
  from resolve_case_insensitive [OF a b, of plain] a b show ?thesis by simp
qed

subsection \<open>The help text\<close>

lemma chunks3_fifteen:
  assumes "15 \<le> length ks"
  shows "chunks3 (take 15 ks) =
    map (\<lambda>i. [ks ! (3 * i), ks ! (3 * i + 1), ks ! (3 * i + 2)]) [0..<5]"
proof -
  have "take 15 ks = map ((!) ks) [0..<15]"
    using assms by (simp add: list_eq_iff_nth_eq)
  also have "[0..<15] = [0, 1, 2, 3, 4, 5, 6, 7, 8, 9, 10, 11, 12, 13, 14 :: nat]"
    by code_simp
  finally have "take 15 ks = map ((!) ks) [0, 1, 2, 3, 4, 5, 6, 7, 8, 9, 10, 11, 12, 13, 14]" .
  moreover have "[0..<5] = [0, 1, 2, 3, 4 :: nat]" by code_simp
  ultimately show ?thesis by (simp add: eval_nat_numeral)
qed

text \<open>
  C8. For a name the table does not have, the run prints that the team was not found,
  five lines with the first fifteen names of the table in title case, three to a line, and
  then \<^verbatim>\<open>... and N more\<close> with \<open>N\<close> the number of names in the table less 15, provided the
  table has more than 15; it makes no request.
\<close>

theorem unknown_team_help:
  assumes "read_team_name P args stdin = (asked, Inr team_name)"
    and "team_name \<noteq> []"
    and "get_team_id ids P team_name = None"
    and "15 < length (keys ids)"
  shows "main ids P net args stdin =
    (Print (nl # sym_ball @ '' College Football Team Checker '' @ sym_ball @ [nl]) # asked @
     Print (nl # ''Searching for '' @ [quote] @ team_name @ [quote] @ ''...'') #
     Print (nl # sym_cross @ '' Team '' @ [quote] @ team_name @ [quote] @
            '' not found in database.'') #
     Print (nl # ''Supported teams include:'') #
     map (\<lambda>i. Print (''   '' @ title P (keys ids ! (3 * i)) @ '', '' @
                     title P (keys ids ! (3 * i + 1)) @ '', '' @
                     title P (keys ids ! (3 * i + 2)))) [0..<5] @
     [Print (''   ... and '' @ digits_of (length (keys ids) - 15) @ '' more''),
      Print (nl # ''Try one of these team names.'')],
     None)"
proof -
  from assms(4) have n: "str_int (int (length (keys ids)) - 15) = digits_of (length (keys ids) - 15)"
    by (simp add: str_int_def nat_diff_distrib')
  from assms(4) have c: "chunks3 (take 15 (keys ids)) =
    map (\<lambda>i. [keys ids ! (3 * i), keys ids ! (3 * i + 1), keys ids ! (3 * i + 2)]) [0..<5]"
    by (intro chunks3_fifteen) simp
  show ?thesis
    using assms(1-3)
    by (simp add: main_def not_found_def n c join_with_def comp_def)
qed

theorem unknown_team_help_witness:
  "main TEAM_IDS plain profile_down [''Hogwarts''] None =
    ([Print (nl # sym_ball @ '' College Football Team Checker '' @ sym_ball @ [nl]),
      Print (nl # ''Searching for '' @ [quote] @ ''Hogwarts'' @ [quote] @ ''...''),
      Print (nl # sym_cross @ '' Team '' @ [quote] @ ''Hogwarts'' @ [quote] @
             '' not found in database.''),
      Print (nl # ''Supported teams include:''),
      Print ''   Navy, Air Force, Army'',
      Print ''   Michigan, Ohio State, Alabama'',
      Print ''   Georgia, Clemson, Notre Dame'',
      Print ''   Usc, Texas, Oklahoma'',
      Print ''   Penn State, Florida, Lsu'',
      Print ''   ... and 47 more'',
      Print (nl # ''Try one of these team names.'')],
     None)"
proof -
  have r: "read_team_name plain [''Hogwarts''] None = ([], Inr ''Hogwarts'')"
    by (simp add: read_team_name_def join_with_def)
  have i: "get_team_id TEAM_IDS plain ''Hogwarts'' = None" by code_simp
  have k: "15 < length (keys TEAM_IDS)" by code_simp
  have s: "map (\<lambda>i. Print (''   '' @ title plain (keys TEAM_IDS ! (3 * i)) @ '', '' @
                     title plain (keys TEAM_IDS ! (3 * i + 1)) @ '', '' @
                     title plain (keys TEAM_IDS ! (3 * i + 2)))) [0..<5] =
      [Print ''   Navy, Air Force, Army'',
       Print ''   Michigan, Ohio State, Alabama'',
       Print ''   Georgia, Clemson, Notre Dame'',
       Print ''   Usc, Texas, Oklahoma'',
       Print ''   Penn State, Florida, Lsu'']"
    by code_simp
  have d: "digits_of (length (keys TEAM_IDS) - 15) = ''47''" by code_simp
  have ne: "''Hogwarts'' \<noteq> []" by simp
  note t = unknown_team_help [OF r ne i k, of profile_down]
  show ?thesis by (simp only: t s d) simp
qed

subsection \<open>The record line\<close>

lemma is_overall_dict: "is_dict item \<Longrightarrow> is_overall item = Inr (overall item)"
  by (cases item) (auto simp: is_dict_def is_overall_def overall_def)

lemma find_overall_find:
  "list_all is_dict items \<Longrightarrow> find_overall items = Inr (List.find overall items)"
  by (induction items) (simp_all add: is_overall_dict)

lemma get_summary: "is_dict item \<Longrightarrow> get item ''summary'' (JStr ''N/A'') = Inr (summary_of item)"
  by (cases item) (simp_all add: is_dict_def summary_of_def)

text \<open>
  C9. The record line shows the summary of the first item of the profile's record list
  whose type is \<^verbatim>\<open>total\<close> or whose name is \<^verbatim>\<open>overall\<close>; when no item is such, the summary
  of the first item; and \<^verbatim>\<open>N/A\<close> when the list is empty. Nothing else is printed for the
  record.
\<close>

theorem current_record_line:
  assumes "get team ''record'' (JObj []) = Inr r"
    and "get r ''items'' (JArr []) = Inr (JArr items)"
    and "list_all is_dict items"
  shows "fst (record_section P team) =
    [record_line P
       (case List.find overall items of
          Some item \<Rightarrow> summary_of item
        | None \<Rightarrow> (case items of [] \<Rightarrow> JStr ''N/A'' | first # rest \<Rightarrow> summary_of first))]"
proof (cases items)
  case Nil
  with assms show ?thesis by (simp add: record_section_def printed_def)
next
  case (Cons first rest)
  with assms(3) have d: "is_dict first" by simp
  have f: "find_overall items = Inr (List.find overall items)"
    using assms(3) by (rule find_overall_find)
  show ?thesis
  proof (cases "List.find overall items")
    case None
    with assms(1,2) Cons f d show ?thesis
      by (simp add: record_section_def printed_def get_summary)
  next
    case (Some item)
    then have "item \<in> set items" by (auto simp: find_Some_iff)
    with assms(3) have i: "is_dict item" by (simp add: list_all_iff)
    have quiet: "fst (with_value (get item ''stats'' (JArr [])) (\<lambda>stats.
        with_value (iter stats) (\<lambda>ss.
        with_value (stats_loop ss (None, None)) (\<lambda>_. printed [])))) = []"
      by (intro fst_with_value) (simp add: printed_def)
    from assms(1,2) Cons f Some i quiet show ?thesis
      by (simp add: record_section_def get_summary)
  qed
qed

theorem current_record_line_witness:
  "fst (record_section plain (JObj [(''record'', JObj [(''items'',
      JArr [JObj [(''type'', JStr ''home''), (''summary'', JStr ''3-0'')],
            JObj [(''type'', JStr ''total''), (''summary'', JStr ''5-1'')]])])])) =
     [nl # sym_chart @ '' Current Record: 5-1''] \<and>
   fst (record_section plain (JObj [(''record'', JObj [(''items'',
      JArr [JObj [(''type'', JStr ''home''), (''summary'', JStr ''3-0'')],
            JObj [(''type'', JStr ''road''), (''summary'', JStr ''2-1'')]])])])) =
     [nl # sym_chart @ '' Current Record: 3-0''] \<and>
   fst (record_section plain (JObj [(''record'', JObj [(''items'', JArr [])])])) =
     [nl # sym_chart @ '' Current Record: N/A'']"
proof -
  let ?home = "JObj [(''type'', JStr ''home''), (''summary'', JStr ''3-0'')]"
  let ?total = "JObj [(''type'', JStr ''total''), (''summary'', JStr ''5-1'')]"
  let ?road = "JObj [(''type'', JStr ''road''), (''summary'', JStr ''2-1'')]"
  have o: "\<not> overall ?home" "overall ?total" "\<not> overall ?road"
    by (simp_all add: overall_def)
  have s: "summary_of ?home = JStr ''3-0''" "summary_of ?total = JStr ''5-1''"
    by (simp_all add: summary_of_def)
  have a: "fst (record_section plain (JObj [(''record'', JObj [(''items'', JArr [?home, ?total])])])) =
     [nl # sym_chart @ '' Current Record: 5-1'']"
    by (subst current_record_line [where r = "JObj [(''items'', JArr [?home, ?total])]"
          and items = "[?home, ?total]"])
       (simp_all add: is_dict_def o s record_line_def fstr_def)
  have b: "fst (record_section plain (JObj [(''record'', JObj [(''items'', JArr [?home, ?road])])])) =
     [nl # sym_chart @ '' Current Record: 3-0'']"
    by (subst current_record_line [where r = "JObj [(''items'', JArr [?home, ?road])]"
          and items = "[?home, ?road]"])
       (simp_all add: is_dict_def o s record_line_def fstr_def)
  have c: "fst (record_section plain (JObj [(''record'', JObj [(''items'', JArr [])])])) =
     [nl # sym_chart @ '' Current Record: N/A'']"
    by (subst current_record_line [where r = "JObj [(''items'', JArr [])]" and items = "[]"])
       (simp_all add: record_line_def fstr_def)
  from a b c show ?thesis by simp
qed

subsection \<open>No team name\<close>

text \<open>
  C10. With no command-line argument and a line at the prompt that is empty or only
  whitespace (so that \<^verbatim>\<open>strip\<close> leaves nothing), the run is the banner, the prompt and
  \<^verbatim>\<open>No team name provided. Exiting.\<close>, and it ends there without an exception: whatever
  the table and the network hold, nothing is looked up and no request is made.
\<close>

theorem no_team_name:
  assumes "list_all is_space line \<or> strip P line = []"
  shows "main ids P net [] (Some line) =
    ([Print (nl # sym_ball @ '' College Football Team Checker '' @ sym_ball @ [nl]),
      Input ''Enter your college football team: '',
      Print ''No team name provided. Exiting.''], None)"
proof -
  from assms have "strip P line = []" by (auto dest: strip_spaces)
  then show ?thesis by (simp add: main_def read_team_name_def)
qed

theorem no_team_name_witness:
  "list_all is_space [CHR '' '', CHR 0x09, CHR '' ''] \<and>
   main TEAM_IDS plain profile_down [] (Some [CHR '' '', CHR 0x09, CHR '' '']) =
    ([Print (nl # sym_ball @ '' College Football Team Checker '' @ sym_ball @ [nl]),
      Input ''Enter your college football team: '',
      Print ''No team name provided. Exiting.''], None)"
proof -
  have h: "list_all is_space [CHR '' '', CHR 0x09, CHR '' '']"
    by (simp add: is_space_def)
  with no_team_name [of "[CHR '' '', CHR 0x09, CHR '' '']" plain TEAM_IDS profile_down]
  show ?thesis by simp
qed

end
